theory Spec2Isabelle
  imports Main "HOL-Library.Word"
begin

section \<open>JavaScript strings\<close>

text \<open>
  A JavaScript string is a finite sequence of 16-bit code units. String literals of the
  source are written \<open>js ''...''\<close>; every literal of the modelled code is ASCII.
\<close>

type_synonym jschar = "16 word"
type_synonym jsstring = "jschar list"

definition js :: "string \<Rightarrow> jsstring" where
  "js s = map of_char s"

text \<open>\<^verbatim>\<open>s.startsWith(p)\<close>\<close>

definition startsWith :: "jsstring \<Rightarrow> jsstring \<Rightarrow> bool" where
  "startsWith s p = (take (length p) s = p)"

text \<open>\<^verbatim>\<open>s.includes(p)\<close>: \<open>p\<close> occurs somewhere in \<open>s\<close>.\<close>

fun str_includes :: "jsstring \<Rightarrow> jsstring \<Rightarrow> bool" where
  "str_includes [] p = (p = [])"
| "str_includes (c # cs) p = (startsWith (c # cs) p \<or> str_includes cs p)"

text \<open>
  \<^verbatim>\<open>s.replace(p, r)\<close> with a string pattern: the first occurrence of \<open>p\<close> is replaced.
  The replacement strings of the modelled code contain no \<^verbatim>\<open>$\<close>, so \<open>r\<close> is inserted as it is.
\<close>

fun replace_first :: "jsstring \<Rightarrow> jsstring \<Rightarrow> jsstring \<Rightarrow> jsstring" where
  "replace_first [] p r = (if p = [] then r else [])"
| "replace_first (c # cs) p r =
     (if startsWith (c # cs) p then r @ drop (length p) (c # cs)
      else c # replace_first cs p r)"

text \<open>The character class \<^verbatim>\<open>\w\<close> (no \<^verbatim>\<open>i\<close> or \<^verbatim>\<open>u\<close> flag): \<^verbatim>\<open>[A-Za-z0-9_]\<close>.\<close>

definition is_word_char :: "jschar \<Rightarrow> bool" where
  "is_word_char c =
     ((0x41 \<le> c \<and> c \<le> 0x5A) \<or> (0x61 \<le> c \<and> c \<le> 0x7A) \<or> (0x30 \<le> c \<and> c \<le> 0x39) \<or> c = 0x5F)"

text \<open>
  The line terminators, which \<^verbatim>\<open>.\<close> does not match (no \<^verbatim>\<open>s\<close> flag):
  LF, CR, U+2028 and U+2029.
\<close>

definition is_line_terminator :: "jschar \<Rightarrow> bool" where
  "is_line_terminator c = (c = 0x0A \<or> c = 0x0D \<or> c = 0x2028 \<or> c = 0x2029)"

section \<open>Selector resolver (\<^verbatim>\<open>getLocator\<close>, browser-session.ts)\<close>

text \<open>
  What \<^verbatim>\<open>getLocator\<close> returns: the page method it calls with its arguments.
  \<open>Css s\<close> is \<^verbatim>\<open>page.locator(s)\<close>, \<open>ByRole r None\<close> is \<^verbatim>\<open>page.getByRole(r)\<close>,
  \<open>ByRole r (Some n)\<close> is \<^verbatim>\<open>page.getByRole(r, { name: n })\<close>, and so on.
\<close>

datatype strategy =
    Css jsstring
  | ByRole jsstring "jsstring option"
  | ByTestId jsstring
  | ByPlaceholder jsstring
  | ByLabel jsstring
  | ByText jsstring

text \<open>\<^verbatim>\<open>selector.match(/^[.#[]/)\<close>: the first code unit is one of \<^verbatim>\<open>.\<close>, \<^verbatim>\<open>#\<close>, \<^verbatim>\<open>[\<close>.\<close>

definition match_css_start :: "jsstring \<Rightarrow> bool" where
  "match_css_start s = (case s of [] \<Rightarrow> False | c # _ \<Rightarrow> c = 0x2E \<or> c = 0x23 \<or> c = 0x5B)"

text \<open>
  \<^verbatim>\<open>selector.match(/^role:(\w+)(?:\[(.+)\])?$/)\<close>, returning the two capture groups.
  After the literal \<^verbatim>\<open>role:\<close>, the greedy \<^verbatim>\<open>\w+\<close> can only end where the word characters
  end, since what follows it is \<^verbatim>\<open>[\<close> or the end of the input, neither a word character.
  The optional group then needs \<^verbatim>\<open>[\<close> next and \<^verbatim>\<open>]\<close> as the last code unit of the input,
  with at least one code unit between them and no line terminator there; without
  the group the input ends after the role.
\<close>

definition match_role :: "jsstring \<Rightarrow> (jsstring \<times> jsstring option) option" where
  "match_role s =
     (if \<not> startsWith s (js ''role:'') then None
      else
        let rest = drop 5 s;
            role = takeWhile is_word_char rest;
            after = dropWhile is_word_char rest
        in if role = [] then None
           else if after = [] then Some (role, None)
           else if hd after = 0x5B \<and> last after = 0x5D \<and> 3 \<le> length after
                   \<and> list_all (\<lambda>c. \<not> is_line_terminator c) (butlast (tl after))
                then Some (role, Some (butlast (tl after)))
           else None)"

definition getLocator :: "jsstring \<Rightarrow> strategy" where
  "getLocator selector =
     (if match_css_start selector \<or> str_includes selector (js ''>'') \<or> str_includes selector (js ''+'')
      then Css selector
      else case match_role selector of
        Some (role, name) \<Rightarrow>
          (case name of
             Some n \<Rightarrow> if n \<noteq> [] then ByRole role (Some n) else ByRole role None
           | None \<Rightarrow> ByRole role None)
      | None \<Rightarrow>
          if startsWith selector (js ''testid:'')
          then ByTestId (replace_first selector (js ''testid:'') [])
          else if startsWith selector (js ''placeholder:'')
          then ByPlaceholder (replace_first selector (js ''placeholder:'') [])
          else if startsWith selector (js ''label:'')
          then ByLabel (replace_first selector (js ''label:'') [])
          else ByText selector)"


section \<open>JavaScript values\<close>

text \<open>
  The values that travel through the tool interface: what JSON can carry, and
  \<^verbatim>\<open>undefined\<close>. Numbers are restricted to integers; the modelled code only tests them for
  truthiness and prints them. An object is the list of its own enumerable properties in
  enumeration order, as \<^verbatim>\<open>for (const key in obj)\<close> visits them; it is taken to be a plain
  record (no inherited enumerable property, no key with a setter such as \<^verbatim>\<open>__proto__\<close>).
\<close>

datatype jsval =
    Undefined
  | Null
  | Bool bool
  | Num int
  | Str jsstring
  | Arr "jsval list"
  | Obj "(jsstring \<times> jsval) list"

type_synonym jsobject = "(jsstring \<times> jsval) list"

text \<open>Property access \<^verbatim>\<open>obj.key\<close> on an object: \<^verbatim>\<open>undefined\<close> when the property is absent.\<close>

definition field :: "jsobject \<Rightarrow> string \<Rightarrow> jsval" where
  "field obj key = (case map_of obj (js key) of Some v \<Rightarrow> v | None \<Rightarrow> Undefined)"

text \<open>Truthiness, as tested by \<^verbatim>\<open>if (x)\<close>, \<^verbatim>\<open>x && y\<close>, \<^verbatim>\<open>x || y\<close> and \<^verbatim>\<open>x ? a : b\<close>.\<close>

fun truthy :: "jsval \<Rightarrow> bool" where
  "truthy Undefined = False"
| "truthy Null = False"
| "truthy (Bool b) = b"
| "truthy (Num n) = (n \<noteq> 0)"
| "truthy (Str s) = (s \<noteq> [])"
| "truthy (Arr xs) = True"
| "truthy (Obj ps) = True"

text \<open>\<^verbatim>\<open>a || b\<close>\<close>

definition or_else :: "jsval \<Rightarrow> jsval \<Rightarrow> jsval" where
  "or_else a b = (if truthy a then a else b)"

fun digits :: "nat \<Rightarrow> string" where
  "digits n = (if n < 10 then [char_of (48 + n)] else digits (n div 10) @ [char_of (48 + n mod 10)])"

fun join_comma :: "jsstring list \<Rightarrow> jsstring" where
  "join_comma [] = []"
| "join_comma [x] = x"
| "join_comma (x # y # ys) = x @ js '','' @ join_comma (y # ys)"

text \<open>String conversion, as template literals and \<^verbatim>\<open>+\<close> with a string operand apply it.\<close>

fun ToString :: "jsval \<Rightarrow> jsstring" where
  "ToString Undefined = js ''undefined''"
| "ToString Null = js ''null''"
| "ToString (Bool b) = (if b then js ''true'' else js ''false'')"
| "ToString (Num n) = (if n < 0 then js ''-'' @ js (digits (nat (- n))) else js (digits (nat n)))"
| "ToString (Str s) = s"
| "ToString (Arr xs) =
     join_comma (map (\<lambda>x. if x = Undefined \<or> x = Null then [] else ToString x) xs)"
| "ToString (Obj ps) = js ''[object Object]''"

text \<open>\<^verbatim>\<open>x.length\<close> on a truthy value.\<close>

fun js_length :: "jsval \<Rightarrow> jsval" where
  "js_length (Str s) = Num (int (length s))"
| "js_length (Arr xs) = Num (int (length xs))"
| "js_length v = Undefined"

text \<open>A thrown \<^verbatim>\<open>Error\<close>, identified by its message.\<close>

datatype error = Error jsstring

section \<open>Secret interpolator (\<^verbatim>\<open>interpolateSecrets\<close>, \<^verbatim>\<open>interpolateSecretsInObject\<close>)\<close>

text \<open>The variable store is \<^verbatim>\<open>process.env\<close>: a lookup is \<^verbatim>\<open>undefined\<close> or a string.\<close>

type_synonym env = "jsstring \<rightharpoonup> jsstring"

text \<open>
  The code units \<^verbatim>\<open>String.prototype.trim\<close> strips from both ends: the white space and
  line terminator code points of ECMAScript.
\<close>

definition is_white_space :: "jschar \<Rightarrow> bool" where
  "is_white_space c =
     (c = 0x09 \<or> c = 0x0A \<or> c = 0x0B \<or> c = 0x0C \<or> c = 0x0D \<or> c = 0x20 \<or> c = 0xA0
      \<or> c = 0x1680 \<or> (0x2000 \<le> c \<and> c \<le> 0x200A) \<or> c = 0x2028 \<or> c = 0x2029
      \<or> c = 0x202F \<or> c = 0x205F \<or> c = 0x3000 \<or> c = 0xFEFF)"

definition trim :: "jsstring \<Rightarrow> jsstring" where
  "trim s = rev (dropWhile is_white_space (rev (dropWhile is_white_space s)))"

text \<open>
  One attempt of \<^verbatim>\<open>/\$\{\{([^}]+)\}\}/\<close> at the start of \<open>s\<close>: the capture group and what is
  left of the input after the match. After \<^verbatim>\<open>${{\<close>, the greedy \<^verbatim>\<open>[^}]+\<close> takes every code unit
  up to the next \<^verbatim>\<open>}\<close> (giving some back cannot help: the next code unit would not be \<^verbatim>\<open>}\<close>),
  at least one, and \<^verbatim>\<open>}}\<close> must follow.
\<close>

definition match_placeholder :: "jsstring \<Rightarrow> (jsstring \<times> jsstring) option" where
  "match_placeholder s =
     (if startsWith s (js ''${{'') then
        let body = drop 3 s;
            varName = takeWhile (\<lambda>c. c \<noteq> 0x7D) body;
            after = dropWhile (\<lambda>c. c \<noteq> 0x7D) body
        in if varName \<noteq> [] \<and> startsWith after (js ''}}'') then Some (varName, drop 2 after)
           else None
      else None)"

text \<open>
  The matches of the global regular expression, left to right: where no match starts,
  the code unit is kept and the search moves on by one; after a match the search
  resumes behind it.
\<close>

datatype piece = Lit jschar | Match jsstring

function scan :: "jsstring \<Rightarrow> piece list" where
  "scan [] = []"
| "scan (c # cs) =
     (case match_placeholder (c # cs) of
        Some (varName, rest) \<Rightarrow> Match varName # scan rest
      | None \<Rightarrow> Lit c # scan cs)"
  by pat_completeness auto
termination
proof (relation "measure length")
  fix c cs x2 varName rest
  assume "match_placeholder (c # cs) = Some x2" "(varName, rest) = x2"
  then have "rest = drop 2 (dropWhile (\<lambda>c. c \<noteq> 0x7D) (drop 3 (c # cs)))"
    by (auto simp: match_placeholder_def Let_def split: if_splits)
  moreover have "length (dropWhile (\<lambda>c. c \<noteq> 0x7D) (drop 3 (c # cs))) \<le> length (drop 3 (c # cs))"
    by (rule length_dropWhile_le)
  ultimately have "length rest < length (c # cs)"
    by simp
  then show "(rest, c # cs) \<in> measure length" by simp
qed simp_all

text \<open>
  \<^verbatim>\<open>text.replace(regex, callback)\<close>: the callback is called on each match in order and
  its result is inserted as it is; an exception of the callback ends the replacement.
\<close>

fun replace_matches :: "(jsstring \<Rightarrow> error + jsstring) \<Rightarrow> piece list \<Rightarrow> error + jsstring" where
  "replace_matches f [] = Inr []"
| "replace_matches f (Lit c # ps) =
     (case replace_matches f ps of Inl e \<Rightarrow> Inl e | Inr r \<Rightarrow> Inr (c # r))"
| "replace_matches f (Match varName # ps) =
     (case f varName of
        Inl e \<Rightarrow> Inl e
      | Inr v \<Rightarrow> (case replace_matches f ps of Inl e \<Rightarrow> Inl e | Inr r \<Rightarrow> Inr (v @ r)))"

definition not_defined_message :: "jsstring \<Rightarrow> jsstring" where
  "not_defined_message varName =
     js ''Environment variable '' @ [0x22] @ varName @ [0x22]
     @ js '' is not defined. Make sure it'' @ [0x27] @ js ''s set in .env file at repository root''"

definition lookup_secret :: "env \<Rightarrow> jsstring \<Rightarrow> error + jsstring" where
  "lookup_secret env varName =
     (case env (trim varName) of
        None \<Rightarrow> Inl (Error (not_defined_message (trim varName)))
      | Some v \<Rightarrow> Inr v)"

definition interpolateSecrets :: "env \<Rightarrow> jsstring \<Rightarrow> error + jsstring" where
  "interpolateSecrets env text = replace_matches (lookup_secret env) (scan text)"

fun interpolateSecretsInObject :: "env \<Rightarrow> jsval \<Rightarrow> error + jsval"
  and interpolate_elements :: "env \<Rightarrow> jsval list \<Rightarrow> error + jsval list"
  and interpolate_properties :: "env \<Rightarrow> jsobject \<Rightarrow> error + jsobject" where
  "interpolateSecretsInObject env (Str s) =
     (case interpolateSecrets env s of Inl e \<Rightarrow> Inl e | Inr r \<Rightarrow> Inr (Str r))"
| "interpolateSecretsInObject env (Arr xs) =
     (case interpolate_elements env xs of Inl e \<Rightarrow> Inl e | Inr ys \<Rightarrow> Inr (Arr ys))"
| "interpolateSecretsInObject env (Obj ps) =
     (case interpolate_properties env ps of Inl e \<Rightarrow> Inl e | Inr qs \<Rightarrow> Inr (Obj qs))"
| "interpolateSecretsInObject env Undefined = Inr Undefined"
| "interpolateSecretsInObject env Null = Inr Null"
| "interpolateSecretsInObject env (Bool b) = Inr (Bool b)"
| "interpolateSecretsInObject env (Num n) = Inr (Num n)"
| "interpolate_elements env [] = Inr []"
| "interpolate_elements env (x # xs) =
     (case interpolateSecretsInObject env x of
        Inl e \<Rightarrow> Inl e
      | Inr y \<Rightarrow> (case interpolate_elements env xs of Inl e \<Rightarrow> Inl e | Inr ys \<Rightarrow> Inr (y # ys)))"
| "interpolate_properties env [] = Inr []"
| "interpolate_properties env ((key, x) # ps) =
     (case interpolateSecretsInObject env x of
        Inl e \<Rightarrow> Inl e
      | Inr y \<Rightarrow>
          (case interpolate_properties env ps of Inl e \<Rightarrow> Inl e | Inr qs \<Rightarrow> Inr ((key, y) # qs)))"


section \<open>The browser engine and effects\<close>

text \<open>
  The automation engine is a black box. A call names its receiver, the method and the
  arguments; the engine answers with a value or throws, and changes the world \<open>'w\<close>
  (the browser, its pages, the screen). Logging is a write-only side channel that is
  taken never to fail, and is left out.
\<close>

type_synonym handle = nat

datatype target =
    Browser
  | Context
  | Page
  | Keyboard
  | Accessibility
  | Located strategy
  | PageLocator jsval
  | PageGetByText jsval
  | DateClock

datatype call = Call target string "jsval list"

type_synonym 'w engine = "handle \<Rightarrow> call \<Rightarrow> 'w \<Rightarrow> (error + jsval) \<times> 'w"

type_synonym ('w, 'a) eff = "'w \<Rightarrow> (error + 'a) \<times> 'w"

definition ret :: "'a \<Rightarrow> ('w, 'a) eff" where
  "ret x w = (Inr x, w)"

definition throw :: "error \<Rightarrow> ('w, 'a) eff" where
  "throw e w = (Inl e, w)"

definition andThen :: "('w, 'a) eff \<Rightarrow> ('a \<Rightarrow> ('w, 'b) eff) \<Rightarrow> ('w, 'b) eff" where
  "andThen m f w = (case m w of (Inl e, w') \<Rightarrow> (Inl e, w') | (Inr x, w') \<Rightarrow> f x w')"

definition next_do :: "('w, 'a) eff \<Rightarrow> ('w, 'b) eff \<Rightarrow> ('w, 'b) eff" where
  "next_do m k = andThen m (\<lambda>_. k)"

text \<open>
  \<^verbatim>\<open>await getLocator(page, cmd.selector)\<close>: the body calls \<^verbatim>\<open>selector.match\<close>, which only
  a string has.
\<close>

definition locate :: "jsval \<Rightarrow> ('w, strategy) eff" where
  "locate selector =
     (case selector of
        Str s \<Rightarrow> ret (getLocator s)
      | _ \<Rightarrow> throw (Error (js ''selector.match is not a function'')))"

section \<open>Command dispatcher and runner of \<^verbatim>\<open>browser-session\<close>\<close>

datatype kind =
    Navigate | NavigateBack | Click | TypeKeys | Fill | PressKey | Hover | SelectOption
  | Drag | WaitForText | WaitForTimeout | WaitForSelector | Screenshot | Evaluate | GetText
  | GetAttribute | Check | Uncheck | UploadFile | Clear | Scroll | Reload | GetUrl | GetTitle

text \<open>The \<^verbatim>\<open>case\<close> label of \<^verbatim>\<open>switch (cmd.type)\<close> that is strictly equal to the value, if any.\<close>

definition case_label :: "jsval \<Rightarrow> kind option" where
  "case_label t =
     (if t = Str (js ''navigate'') then Some Navigate
      else if t = Str (js ''navigate_back'') then Some NavigateBack
      else if t = Str (js ''click'') then Some Click
      else if t = Str (js ''type'') then Some TypeKeys
      else if t = Str (js ''fill'') then Some Fill
      else if t = Str (js ''press_key'') then Some PressKey
      else if t = Str (js ''hover'') then Some Hover
      else if t = Str (js ''select_option'') then Some SelectOption
      else if t = Str (js ''drag'') then Some Drag
      else if t = Str (js ''wait_for_text'') then Some WaitForText
      else if t = Str (js ''wait_for_timeout'') then Some WaitForTimeout
      else if t = Str (js ''wait_for_selector'') then Some WaitForSelector
      else if t = Str (js ''screenshot'') then Some Screenshot
      else if t = Str (js ''evaluate'') then Some Evaluate
      else if t = Str (js ''get_text'') then Some GetText
      else if t = Str (js ''get_attribute'') then Some GetAttribute
      else if t = Str (js ''check'') then Some Check
      else if t = Str (js ''uncheck'') then Some Uncheck
      else if t = Str (js ''upload_file'') then Some UploadFile
      else if t = Str (js ''clear'') then Some Clear
      else if t = Str (js ''scroll'') then Some Scroll
      else if t = Str (js ''reload'') then Some Reload
      else if t = Str (js ''get_url'') then Some GetUrl
      else if t = Str (js ''get_title'') then Some GetTitle
      else None)"

text \<open>
  The body of each \<^verbatim>\<open>case\<close>, up to its \<^verbatim>\<open>break\<close>: the value left in \<^verbatim>\<open>result\<close>, which
  stays \<^verbatim>\<open>undefined\<close> where a guard is false.
\<close>

fun handler :: "'w engine \<Rightarrow> handle \<Rightarrow> jsobject \<Rightarrow> kind \<Rightarrow> ('w, jsval) eff" where
  "handler eng page cmd Navigate =
     next_do (eng page (Call Page ''goto'' [field cmd ''url'']))
    (next_do (eng page (Call Page ''waitForLoadState'' [Str (js ''networkidle'')]))
    (andThen (eng page (Call Page ''url'' [])) (\<lambda>u. ret (Obj [(js ''url'', u)]))))"
| "handler eng page cmd NavigateBack =
     next_do (eng page (Call Page ''goBack'' []))
    (next_do (eng page (Call Page ''waitForLoadState'' [Str (js ''networkidle'')]))
    (andThen (eng page (Call Page ''url'' [])) (\<lambda>u. ret (Obj [(js ''url'', u)]))))"
| "handler eng page cmd Click =
     (if truthy (field cmd ''selector'') then
        andThen (locate (field cmd ''selector'')) (\<lambda>locator.
        next_do (eng page (Call (Located locator) ''click''
                   [Obj [(js ''button'', field cmd ''button''),
                         (js ''clickCount'', field cmd ''clickCount'')]]))
        (ret (Obj [(js ''clicked'', field cmd ''selector'')])))
      else ret Undefined)"
| "handler eng page cmd TypeKeys =
     (if truthy (field cmd ''selector'') \<and> truthy (field cmd ''value'') then
        andThen (locate (field cmd ''selector'')) (\<lambda>locator.
        next_do (eng page (Call (Located locator) ''pressSequentially''
                   [field cmd ''value'', Obj [(js ''delay'', Num 50)]]))
        (ret (Obj [(js ''typed'',
                    Str (ToString (js_length (field cmd ''value'')) @ js '' characters''))])))
      else ret Undefined)"
| "handler eng page cmd Fill =
     (if truthy (field cmd ''selector'') \<and> field cmd ''value'' \<noteq> Undefined then
        andThen (locate (field cmd ''selector'')) (\<lambda>locator.
        next_do (eng page (Call (Located locator) ''fill'' [field cmd ''value'']))
        (ret (Obj [(js ''filled'', field cmd ''selector'')])))
      else ret Undefined)"
| "handler eng page cmd PressKey =
     (if truthy (field cmd ''key'') then
        next_do (eng page (Call Keyboard ''press'' [field cmd ''key'']))
        (ret (Obj [(js ''pressed'', field cmd ''key'')]))
      else ret Undefined)"
| "handler eng page cmd Hover =
     (if truthy (field cmd ''selector'') then
        andThen (locate (field cmd ''selector'')) (\<lambda>locator.
        next_do (eng page (Call (Located locator) ''hover'' []))
        (ret (Obj [(js ''hovered'', field cmd ''selector'')])))
      else ret Undefined)"
| "handler eng page cmd SelectOption =
     (if truthy (field cmd ''selector'') \<and> truthy (field cmd ''value'') then
        next_do (eng page (Call Page ''selectOption'' [field cmd ''selector'', field cmd ''value'']))
        (ret (Obj [(js ''selected'', field cmd ''value'')]))
      else ret Undefined)"
| "handler eng page cmd Drag =
     (if truthy (field cmd ''selector'') \<and> truthy (field cmd ''targetSelector'') then
        next_do (eng page (Call Page ''dragAndDrop''
                   [field cmd ''selector'', field cmd ''targetSelector'']))
        (ret (Obj [(js ''dragged'',
                    Str (ToString (field cmd ''selector'') @ js '' to ''
                         @ ToString (field cmd ''targetSelector'')))]))
      else ret Undefined)"
| "handler eng page cmd WaitForText =
     (if truthy (field cmd ''text'') then
        next_do (eng page (Call (PageGetByText (field cmd ''text'')) ''waitFor''
                   [Obj [(js ''timeout'', field cmd ''timeout'')]]))
        (ret (Obj [(js ''found'', field cmd ''text'')]))
      else ret Undefined)"
| "handler eng page cmd WaitForTimeout =
     next_do (eng page (Call Page ''waitForTimeout'' [or_else (field cmd ''timeout'') (Num 1000)]))
    (ret (Obj [(js ''waited'', or_else (field cmd ''timeout'') (Str (js ''1000ms'')))]))"
| "handler eng page cmd WaitForSelector =
     (if truthy (field cmd ''selector'') then
        next_do (eng page (Call Page ''waitForSelector''
                   [field cmd ''selector'', Obj [(js ''timeout'', field cmd ''timeout'')]]))
        (ret (Obj [(js ''found'', field cmd ''selector'')]))
      else ret Undefined)"
| "handler eng page cmd Screenshot =
     andThen (if truthy (field cmd ''path'') then ret (field cmd ''path'')
              else andThen (eng page (Call DateClock ''now'' [])) (\<lambda>now.
                   ret (Str (js ''.playwright-mcp/screenshot-'' @ ToString now @ js ''.png''))))
       (\<lambda>screenshotPath.
     next_do (eng page (Call Page ''screenshot''
                [Obj [(js ''path'', screenshotPath), (js ''fullPage'', field cmd ''fullPage'')]]))
     (ret (Obj [(js ''screenshot'', screenshotPath)])))"
| "handler eng page cmd Evaluate =
     (if truthy (field cmd ''script'') then eng page (Call Page ''evaluate'' [field cmd ''script''])
      else ret Undefined)"
| "handler eng page cmd GetText =
     (if truthy (field cmd ''selector'') then
        andThen (locate (field cmd ''selector'')) (\<lambda>locator.
        andThen (eng page (Call (Located locator) ''textContent'' [])) (\<lambda>t.
        ret (Obj [(js ''text'', t)])))
      else ret Undefined)"
| "handler eng page cmd GetAttribute =
     (if truthy (field cmd ''selector'') \<and> truthy (field cmd ''attribute'') then
        andThen (locate (field cmd ''selector'')) (\<lambda>locator.
        andThen (eng page (Call (Located locator) ''getAttribute'' [field cmd ''attribute''])) (\<lambda>a.
        ret (Obj [(ToString (field cmd ''attribute''), a)])))
      else ret Undefined)"
| "handler eng page cmd Check =
     (if truthy (field cmd ''selector'') then
        andThen (locate (field cmd ''selector'')) (\<lambda>locator.
        next_do (eng page (Call (Located locator) ''check'' []))
        (ret (Obj [(js ''checked'', field cmd ''selector'')])))
      else ret Undefined)"
| "handler eng page cmd Uncheck =
     (if truthy (field cmd ''selector'') then
        andThen (locate (field cmd ''selector'')) (\<lambda>locator.
        next_do (eng page (Call (Located locator) ''uncheck'' []))
        (ret (Obj [(js ''unchecked'', field cmd ''selector'')])))
      else ret Undefined)"
| "handler eng page cmd UploadFile =
     (if truthy (field cmd ''selector'') \<and> truthy (field cmd ''files'') then
        next_do (eng page (Call Page ''setInputFiles'' [field cmd ''selector'', field cmd ''files'']))
        (ret (Obj [(js ''uploaded'',
                    Str (ToString (js_length (field cmd ''files'')) @ js '' file(s)''))]))
      else ret Undefined)"
| "handler eng page cmd Clear =
     (if truthy (field cmd ''selector'') then
        andThen (locate (field cmd ''selector'')) (\<lambda>locator.
        next_do (eng page (Call (Located locator) ''clear'' []))
        (ret (Obj [(js ''cleared'', field cmd ''selector'')])))
      else ret Undefined)"
| "handler eng page cmd Scroll =
     next_do (eng page (Call Page ''evaluate(window.scrollTo)''
                [Obj [(js ''x'', or_else (field cmd ''x'') (Num 0)),
                      (js ''y'', or_else (field cmd ''y'') (Num 0))]]))
    (ret (Obj [(js ''scrolled'', Obj [(js ''x'', field cmd ''x''), (js ''y'', field cmd ''y'')])]))"
| "handler eng page cmd Reload =
     next_do (eng page (Call Page ''reload'' []))
    (next_do (eng page (Call Page ''waitForLoadState'' [Str (js ''networkidle'')]))
    (andThen (eng page (Call Page ''url'' [])) (\<lambda>u. ret (Obj [(js ''reloaded'', u)]))))"
| "handler eng page cmd GetUrl =
     andThen (eng page (Call Page ''url'' [])) (\<lambda>u. ret (Obj [(js ''url'', u)]))"
| "handler eng page cmd GetTitle =
     andThen (eng page (Call Page ''title'' [])) (\<lambda>t. ret (Obj [(js ''title'', t)]))"

text \<open>The \<^verbatim>\<open>switch\<close> statement: it has no \<^verbatim>\<open>default\<close> label.\<close>

definition switch_type :: "'w engine \<Rightarrow> handle \<Rightarrow> jsobject \<Rightarrow> ('w, jsval) eff" where
  "switch_type eng page cmd =
     (case case_label (field cmd ''type'') of
        Some k \<Rightarrow> handler eng page cmd k
      | None \<Rightarrow> ret Undefined)"

text \<open>An entry of \<^verbatim>\<open>results\<close>; a property that the object literal does not set reads \<^verbatim>\<open>undefined\<close>.\<close>

record outcome =
  step :: nat
  ctype :: jsval
  success :: bool
  result :: jsval
  error :: jsval

text \<open>One iteration of \<^verbatim>\<open>for (const cmd of input.commands)\<close>: the \<^verbatim>\<open>try\<close> and its \<^verbatim>\<open>catch\<close>.\<close>

definition run_step :: "'w engine \<Rightarrow> handle \<Rightarrow> nat \<Rightarrow> jsobject \<Rightarrow> 'w \<Rightarrow> outcome \<times> 'w" where
  "run_step eng page stepNumber cmd w =
     (case switch_type eng page cmd w of
        (Inr r, w') \<Rightarrow>
          (\<lparr>step = stepNumber, ctype = field cmd ''type'', success = True,
            result = r, error = Undefined\<rparr>, w')
      | (Inl (Error errorMsg), w') \<Rightarrow>
          (\<lparr>step = stepNumber, ctype = field cmd ''type'', success = False,
            result = Undefined, error = Str errorMsg\<rparr>, w'))"

fun run_commands ::
  "'w engine \<Rightarrow> handle \<Rightarrow> nat \<Rightarrow> jsobject list \<Rightarrow> outcome list \<Rightarrow> 'w \<Rightarrow> outcome list \<times> 'w" where
  "run_commands eng page stepNumber [] results w = (results, w)"
| "run_commands eng page stepNumber (cmd # cmds) results w =
     (case run_step eng page (stepNumber + 1) cmd w of
        (entry, w') \<Rightarrow> run_commands eng page (stepNumber + 1) cmds (results @ [entry]) w')"

text \<open>
  What \<^verbatim>\<open>run\<close> returns in \<^verbatim>\<open>structuredContent\<close>. The \<^verbatim>\<open>message\<close> text repeats these
  values and is left out.
\<close>

record session_report =
  totalCommands :: nat
  succeeded :: nat
  failed :: nat
  finalUrl :: jsval
  finalTitle :: jsval
  pageSnapshot :: jsval
  results :: "outcome list"



section \<open>Command runner of \<^verbatim>\<open>execute-shortcut\<close>\<close>

text \<open>The \<^verbatim>\<open>switch\<close> of the shortcut runner: twelve labels and a throwing \<^verbatim>\<open>default\<close>.\<close>

definition shortcut_switch :: "'w engine \<Rightarrow> handle \<Rightarrow> jsobject \<Rightarrow> ('w, jsval) eff" where
  "shortcut_switch eng page cmd =
     (let t = field cmd ''type'' in
      if t = Str (js ''navigate'') then
        next_do (eng page (Call Page ''goto''
                   [field cmd ''url'',
                    Obj [(js ''waitUntil'', or_else (field cmd ''waitUntil'') (Str (js ''load'')))]]))
        (andThen (eng page (Call Page ''url'' [])) (\<lambda>u. ret (Obj [(js ''url'', u)])))
      else if t = Str (js ''click'') then
        next_do (eng page (Call (PageLocator (field cmd ''selector'')) ''click'' []))
        (ret (Obj [(js ''clicked'', field cmd ''selector'')]))
      else if t = Str (js ''fill'') then
        next_do (eng page (Call (PageLocator (field cmd ''selector'')) ''fill'' [field cmd ''value'']))
        (ret (Obj [(js ''filled'', field cmd ''selector'')]))
      else if t = Str (js ''type'') then
        next_do (eng page (Call (PageLocator (field cmd ''selector'')) ''pressSequentially''
                   [field cmd ''value'',
                    Obj [(js ''delay'', or_else (field cmd ''delay'') (Num 100))]]))
        (ret (Obj [(js ''typed'', field cmd ''selector'')]))
      else if t = Str (js ''press_key'') then
        next_do (eng page (Call Keyboard ''press'' [field cmd ''key'']))
        (ret (Obj [(js ''pressed'', field cmd ''key'')]))
      else if t = Str (js ''wait_for_selector'') then
        next_do (eng page (Call Page ''waitForSelector''
                   [field cmd ''selector'', Obj [(js ''timeout'', field cmd ''timeout'')]]))
        (ret (Obj [(js ''found'', field cmd ''selector'')]))
      else if t = Str (js ''wait_for_text'') then
        next_do (eng page (Call Page ''waitForSelector''
                   [Str (js ''text='' @ ToString (field cmd ''text'')),
                    Obj [(js ''timeout'', field cmd ''timeout'')]]))
        (ret (Obj [(js ''found'', field cmd ''text'')]))
      else if t = Str (js ''wait_for_timeout'') then
        next_do (eng page (Call Page ''waitForTimeout'' [field cmd ''duration'']))
        (ret (Obj [(js ''waited'', Str (ToString (field cmd ''duration'') @ js ''ms''))]))
      else if t = Str (js ''screenshot'') then
        andThen (if truthy (field cmd ''path'') then ret (field cmd ''path'')
                 else andThen (eng page (Call DateClock ''now'' [])) (\<lambda>now.
                      ret (Str (js ''screenshot-'' @ ToString now @ js ''.png''))))
          (\<lambda>screenshotPath.
        next_do (eng page (Call Page ''screenshot''
                   [Obj [(js ''path'', screenshotPath), (js ''fullPage'', field cmd ''fullPage'')]]))
        (ret (Obj [(js ''screenshot'', screenshotPath)])))
      else if t = Str (js ''get_text'') then
        andThen (eng page (Call (PageLocator (field cmd ''selector'')) ''textContent'' []))
          (\<lambda>text. ret (Obj [(js ''text'', text)]))
      else if t = Str (js ''get_url'') then
        andThen (eng page (Call Page ''url'' [])) (\<lambda>u. ret (Obj [(js ''url'', u)]))
      else if t = Str (js ''get_title'') then
        andThen (eng page (Call Page ''title'' [])) (\<lambda>title. ret (Obj [(js ''title'', title)]))
      else throw (Error (js ''Unknown command type: '' @ ToString t)))"

text \<open>The properties that \<^verbatim>\<open>...result\<close> copies into an object literal.\<close>

fun spread :: "jsval \<Rightarrow> jsobject" where
  "spread (Obj ps) = ps"
| "spread v = []"

text \<open>
  The loop \<^verbatim>\<open>for (let i = 0; i < commands.length; i++)\<close> with its \<^verbatim>\<open>try\<close>; the \<^verbatim>\<open>catch\<close>
  logs and throws the exception again.
\<close>

fun shortcut_loop ::
  "'w engine \<Rightarrow> handle \<Rightarrow> nat \<Rightarrow> jsobject list \<Rightarrow> jsobject list \<Rightarrow> ('w, jsobject list) eff" where
  "shortcut_loop eng page i [] entries w = (Inr entries, w)"
| "shortcut_loop eng page i (cmd # cmds) entries w =
     (case shortcut_switch eng page cmd w of
        (Inl e, w') \<Rightarrow> (Inl e, w')
      | (Inr r, w') \<Rightarrow>
          shortcut_loop eng page (i + 1) cmds
            (entries @ [[(js ''step'', Num (int (i + 1))), (js ''command'', field cmd ''type'')]
                         @ spread r]) w')"

text \<open>
  \<^verbatim>\<open>executeShortcut.run\<close> from the parsed \<^verbatim>\<open>shortcutData.commands\<close> on, each command an
  object; the value returned is the object that the source prints as JSON.
\<close>

definition executeShortcut_run ::
  "'w engine \<Rightarrow> handle \<Rightarrow> jsstring \<Rightarrow> jsobject list \<Rightarrow> ('w, jsval) eff" where
  "executeShortcut_run eng page resolvedPath commands =
     andThen (shortcut_loop eng page 0 commands []) (\<lambda>entries.
     ret (Obj [(js ''success'', Bool True), (js ''shortcutPath'', Str resolvedPath),
               (js ''commandsExecuted'', Num (int (length commands))),
               (js ''results'', Arr (map Obj entries))]))"

section \<open>Session manager and action runner (\<^verbatim>\<open>runAction\<close>)\<close>

text \<open>
  The process state: the three module variables and the world outside them. Action
  modules cannot name the module variables, so an action's \<^verbatim>\<open>run\<close> acts on the world only.
\<close>

record 'w state =
  persistentBrowser :: "handle option"
  persistentContext :: "handle option"
  persistentPage :: "handle option"
  world :: 'w

text \<open>The \<^verbatim>\<open>playwright\<close> module: which launchers it has, and what launching does.\<close>

record 'w playwright =
  launcher :: "jsstring \<Rightarrow> bool"
  launch :: "jsstring \<Rightarrow> jsstring option \<Rightarrow> bool \<Rightarrow> ('w, handle) eff"
  newContext :: "handle \<Rightarrow> jsval \<Rightarrow> ('w, handle) eff"
  newPage :: "handle \<Rightarrow> ('w, handle) eff"

record cli_options =
  cli_browser :: jsstring
  cli_headless :: bool

record ctx =
  ctx_browser :: handle
  ctx_context :: handle
  ctx_page :: handle
  ctx_input :: jsval

record 'w action_definition =
  a_name :: jsstring
  a_browser :: "jsstring option"
  a_headless :: "bool option"
  a_contextOptions :: jsval
  a_run :: "ctx \<Rightarrow> ('w, jsval) eff"

text \<open>
  \<open>Normalized n r\<close> stands for \<^verbatim>\<open>normalizeActionResult(n, r)\<close>, \<open>ToolError m\<close> for the result
  with \<^verbatim>\<open>isError: true\<close> and the text \<open>m\<close>.
\<close>

datatype tool_result = Normalized jsstring jsval | ToolError jsstring

text \<open>\<^verbatim>\<open>toLowerCase\<close>, on the ASCII letters that the three compared names consist of.\<close>

definition toLowerCase :: "jsstring \<Rightarrow> jsstring" where
  "toLowerCase s = map (\<lambda>c. if 0x41 \<le> c \<and> c \<le> 0x5A then c + 0x20 else c) s"

definition browser_choice :: "jsstring \<Rightarrow> jsstring \<times> jsstring option" where
  "browser_choice browserName =
     (let browserLower = toLowerCase browserName in
      if browserLower = js ''chrome'' then (js ''chromium'', Some (js ''chrome''))
      else if browserLower = js ''edge'' then (js ''chromium'', Some (js ''msedge''))
      else if browserLower = js ''safari'' then (js ''webkit'', None)
      else (browserName, None))"

text \<open>
  "Reuse persistent browser or create new one": the existing triple when all three
  variables are set, and otherwise a launch, whose handles are stored.
\<close>

definition acquire ::
  "'w playwright \<Rightarrow> jsstring \<Rightarrow> jsstring option \<Rightarrow> bool \<Rightarrow> jsval \<Rightarrow> 'w state
     \<Rightarrow> (error + handle \<times> handle \<times> handle) \<times> 'w state" where
  "acquire pw browserName channel headlessMode options st =
     (case (persistentBrowser st, persistentContext st, persistentPage st) of
        (Some b, Some c, Some p) \<Rightarrow> (Inr (b, c, p), st)
      | _ \<Rightarrow>
        (case launch pw browserName channel headlessMode (world st) of
           (Inl e, w1) \<Rightarrow> (Inl e, st\<lparr>world := w1\<rparr>)
         | (Inr b, w1) \<Rightarrow>
           (case newContext pw b options w1 of
              (Inl e, w2) \<Rightarrow> (Inl e, st\<lparr>world := w2\<rparr>)
            | (Inr c, w2) \<Rightarrow>
              (case newPage pw c w2 of
                 (Inl e, w3) \<Rightarrow> (Inl e, st\<lparr>world := w3\<rparr>)
               | (Inr p, w3) \<Rightarrow>
                   (Inr (b, c, p),
                    st\<lparr>persistentBrowser := Some b, persistentContext := Some c,
                       persistentPage := Some p, world := w3\<rparr>)))))"

definition failed_message :: "jsstring \<Rightarrow> jsstring \<Rightarrow> jsstring" where
  "failed_message actionName message = js ''Action '' @ actionName @ js '' failed: '' @ message"

text \<open>
  The \<^verbatim>\<open>try\<close> block of \<^verbatim>\<open>runAction\<close> and its \<^verbatim>\<open>catch\<close>, with the handles just acquired.
\<close>

definition run_with_session ::
  "env \<Rightarrow> 'w action_definition \<Rightarrow> jsval \<Rightarrow> handle \<times> handle \<times> handle \<Rightarrow> 'w state
     \<Rightarrow> tool_result \<times> 'w state" where
  "run_with_session env action args session st =
     (case session of (b, c, p) \<Rightarrow>
      (case interpolateSecretsInObject env args of
         Inl (Error message) \<Rightarrow> (ToolError (failed_message (a_name action) message), st)
       | Inr interpolatedArgs \<Rightarrow>
         (case a_run action
                 \<lparr>ctx_browser = b, ctx_context = c, ctx_page = p, ctx_input = interpolatedArgs\<rparr>
                 (world st) of
            (Inl (Error message), w') \<Rightarrow>
              (ToolError (failed_message (a_name action) message), st\<lparr>world := w'\<rparr>)
          | (Inr r, w') \<Rightarrow>
              (Normalized (a_name action) r,
               if a_name action = js ''close-browser''
               then st\<lparr>persistentBrowser := None, persistentContext := None,
                       persistentPage := None, world := w'\<rparr>
               else st\<lparr>world := w'\<rparr>))))"

text \<open>
  \<^verbatim>\<open>runAction\<close>. A failed launch is thrown to the caller (\<open>Inl\<close>); every other outcome
  is a tool result.
\<close>

definition runAction ::
  "'w playwright \<Rightarrow> cli_options \<Rightarrow> env \<Rightarrow> 'w action_definition \<Rightarrow> jsval \<Rightarrow> 'w state
     \<Rightarrow> (error + tool_result) \<times> 'w state" where
  "runAction pw cli env action args st =
     (case browser_choice (case a_browser action of Some b \<Rightarrow> b | None \<Rightarrow> cli_browser cli) of
        (browserName, channel) \<Rightarrow>
          if \<not> launcher pw browserName then
            (Inr (ToolError (js ''Unsupported browser: '' @ browserName
                    @ js ''. Supported: chromium, chrome, firefox, webkit, edge'')), st)
          else
            (case acquire pw browserName channel
                    (case a_headless action of Some h \<Rightarrow> h | None \<Rightarrow> cli_headless cli)
                    (a_contextOptions action) st of
               (Inl e, st1) \<Rightarrow> (Inl e, st1)
             | (Inr session, st1) \<Rightarrow>
                 (case run_with_session env action args session st1 of
                    (r, st2) \<Rightarrow> (Inr r, st2))))"

text \<open>The action \<^verbatim>\<open>close-browser\<close>: an exception while closing is logged and dropped.\<close>

definition closeBrowser :: "'w engine \<Rightarrow> 'w action_definition" where
  "closeBrowser eng =
     \<lparr>a_name = js ''close-browser'', a_browser = None, a_headless = None,
      a_contextOptions = Undefined,
      a_run = (\<lambda>cx w.
        case next_do (eng (ctx_page cx) (Call Page ''close'' []))
            (next_do (eng (ctx_context cx) (Call Context ''close'' []))
                     (eng (ctx_browser cx) (Call Browser ''close'' []))) w of
          (r, w') \<Rightarrow>
            (Inr (Obj [(js ''content'',
                        Arr [Obj [(js ''type'', Str (js ''text'')),
                                  (js ''text'', Str (js ''Browser session closed.''))]])]), w'))\<rparr>"

text \<open>
  The action \<^verbatim>\<open>browser-snapshot\<close> (browser-snapshot.ts): it reads the URL, the title and the
  accessibility snapshot of the body, and reports them as text.
\<close>

definition browserSnapshot :: "'w engine \<Rightarrow> 'w action_definition" where
  "browserSnapshot eng =
     \<lparr>a_name = js ''browser-snapshot'', a_browser = None, a_headless = None,
      a_contextOptions = Undefined,
      a_run = (\<lambda>cx.
        andThen (eng (ctx_page cx) (Call Page ''url'' [])) (\<lambda>url.
        andThen (eng (ctx_page cx) (Call Page ''title'' [])) (\<lambda>title.
        andThen (eng (ctx_page cx) (Call (PageLocator (Str (js ''body''))) ''ariaSnapshot'' []))
          (\<lambda>snapshot.
        ret (Obj [(js ''content'',
               Arr [Obj [(js ''type'', Str (js ''text'')),
                         (js ''text'',
                          Str (js ''### Page State'' @ [0x0A]
                               @ js ''- Page URL: '' @ ToString url @ [0x0A]
                               @ js ''- Page Title: '' @ ToString title @ [0x0A]
                               @ js ''- Page Snapshot:'' @ [0x0A]
                               @ [0x60, 0x60, 0x60] @ js ''yaml'' @ [0x0A]
                               @ ToString snapshot @ [0x0A]
                               @ [0x60, 0x60, 0x60]))]])])))))\<rparr>"

section \<open>Vocabulary of the properties\<close>

text \<open>
  The definitions of this section are not part of the program. They say in which terms
  the properties are stated, following the words of the specification, and give the
  example inputs on which the properties are evaluated.
\<close>

subsection \<open>Selector rules\<close>

text \<open>
  Rule 1 in the words of the specification: the string begins with \<^verbatim>\<open>.\<close>, \<^verbatim>\<open>#\<close> or \<^verbatim>\<open>[\<close>, or
  contains \<^verbatim>\<open>>\<close> or \<^verbatim>\<open>+\<close>.
\<close>

definition spec_structural :: "jsstring \<Rightarrow> bool" where
  "spec_structural s = ((s \<noteq> [] \<and> hd s \<in> set (js ''.#['')) \<or> set s \<inter> set (js ''>+'') \<noteq> {})"

text \<open>
  Rule 2 in the words of the specification: the whole string is \<^verbatim>\<open>role:ROLE\<close> (no name) or
  \<^verbatim>\<open>role:ROLE[NAME]\<close>, with the grammar that the pattern of the source gives to both parts.
\<close>

definition spec_role_form :: "jsstring \<Rightarrow> jsstring \<Rightarrow> jsstring option \<Rightarrow> bool" where
  "spec_role_form s role name =
     (role \<noteq> [] \<and> list_all is_word_char role \<and>
      (case name of
         None \<Rightarrow> s = js ''role:'' @ role
       | Some n \<Rightarrow> n \<noteq> [] \<and> list_all (\<lambda>c. \<not> is_line_terminator c) n
                    \<and> s = js ''role:'' @ role @ js ''['' @ n @ js '']''))"

subsection \<open>Placeholders and substitution\<close>







text \<open>The first of the names that has no entry in the store.\<close>

definition first_missing :: "env \<Rightarrow> jsstring list \<Rightarrow> jsstring option" where
  "first_missing env names = find (\<lambda>n. env n = None) names"


subsection \<open>Needed parameters\<close>

text \<open>
  The parameters that the handler of each command type of \<^verbatim>\<open>browser-session\<close> needs in order
  to act: the ones its guard tests, and for \<^verbatim>\<open>navigate\<close> the URL that it passes on with a
  non-null assertion. The other types fall back on defaults.
\<close>

fun required_fields :: "kind \<Rightarrow> string list" where
  "required_fields Navigate = [''url'']"
| "required_fields Click = [''selector'']"
| "required_fields TypeKeys = [''selector'', ''value'']"
| "required_fields Fill = [''selector'', ''value'']"
| "required_fields PressKey = [''key'']"
| "required_fields Hover = [''selector'']"
| "required_fields SelectOption = [''selector'', ''value'']"
| "required_fields Drag = [''selector'', ''targetSelector'']"
| "required_fields WaitForText = [''text'']"
| "required_fields WaitForSelector = [''selector'']"
| "required_fields Evaluate = [''script'']"
| "required_fields GetText = [''selector'']"
| "required_fields GetAttribute = [''selector'', ''attribute'']"
| "required_fields Check = [''selector'']"
| "required_fields Uncheck = [''selector'']"
| "required_fields UploadFile = [''selector'', ''files'']"
| "required_fields Clear = [''selector'']"
| "required_fields k = []"

text \<open>A parameter is absent when reading it gives \<^verbatim>\<open>undefined\<close>.\<close>

definition some_required_absent :: "kind \<Rightarrow> jsobject \<Rightarrow> bool" where
  "some_required_absent k cmd = list_ex (\<lambda>f. field cmd f = Undefined) (required_fields k)"

subsection \<open>Example pages, commands and processes\<close>

text \<open>
  A page for the examples: the element \<^verbatim>\<open>#go\<close> is absent, so every call on a locator for it
  times out; \<^verbatim>\<open>goto\<close> rejects a URL that is not a string, as the engine does; the page's
  URL is fixed. The engine for it records the calls made, in order, as its world.
\<close>

fun page_without_go :: "call \<Rightarrow> error + jsval" where
  "page_without_go (Call (Located s) m args) =
     (if s = Css (js ''#go'') then Inl (Error (js ''Timeout 30000ms exceeded.'')) else Inr Undefined)"
| "page_without_go (Call (PageLocator v) m args) =
     (if v = Str (js ''#go'') then Inl (Error (js ''Timeout 30000ms exceeded.'')) else Inr Undefined)"
| "page_without_go (Call Page m args) =
     (if m = ''goto'' then
        (case args of
           Str u # rest \<Rightarrow> Inr Null
         | _ \<Rightarrow> Inl (Error (js ''page.goto: url: expected string, got undefined'')))
      else if m = ''url'' then Inr (Str (js ''https://a.test/''))
      else Inr Undefined)"
| "page_without_go (Call t m args) = Inr Undefined"

definition recording :: "(call \<Rightarrow> error + jsval) \<Rightarrow> call list engine" where
  "recording answer page c w = (answer c, w @ [c])"

text \<open>The commands of the scenario of the specification, and a fourth one.\<close>

definition cmd_navigate :: jsobject where
  "cmd_navigate = [(js ''type'', Str (js ''navigate'')), (js ''url'', Str (js ''https://a.test''))]"

definition cmd_fill :: jsobject where
  "cmd_fill = [(js ''type'', Str (js ''fill'')), (js ''selector'', Str (js ''#u'')),
               (js ''value'', Str (js ''bob''))]"

definition cmd_click :: jsobject where
  "cmd_click = [(js ''type'', Str (js ''click'')), (js ''selector'', Str (js ''#go''))]"

definition cmd_get_url :: jsobject where
  "cmd_get_url = [(js ''type'', Str (js ''get_url''))]"

text \<open>The three module variables of a state.\<close>

definition refs :: "'w state \<Rightarrow> handle option \<times> handle option \<times> handle option" where
  "refs st = (persistentBrowser st, persistentContext st, persistentPage st)"

text \<open>
  A process for the examples. The world is the number of handles issued so far: a
  launch, a new context and a new page each issue the next one. One engine answers
  every call with \<^verbatim>\<open>undefined\<close>, the other throws on every call, as a closed page does.
\<close>

definition counting_playwright :: "nat playwright" where
  "counting_playwright =
     \<lparr>launcher = (\<lambda>n. n = js ''chromium'' \<or> n = js ''firefox'' \<or> n = js ''webkit''),
      launch = (\<lambda>n channel headlessMode w. (Inr w, w + 1)),
      newContext = (\<lambda>b options w. (Inr w, w + 1)),
      newPage = (\<lambda>c w. (Inr w, w + 1))\<rparr>"

definition quiet_engine :: "nat engine" where
  "quiet_engine h c w = (Inr Undefined, w)"

definition closed_engine :: "nat engine" where
  "closed_engine h c w = (Inl (Error (js ''Target page, context or browser has been closed'')), w)"

definition default_cli :: cli_options where
  "default_cli = \<lparr>cli_browser = js ''chromium'', cli_headless = False\<rparr>"

definition unallocated :: "nat state" where
  "unallocated = \<lparr>persistentBrowser = None, persistentContext = None, persistentPage = None,
                   world = 0\<rparr>"

definition allocated :: "nat state" where
  "allocated = \<lparr>persistentBrowser = Some 0, persistentContext = Some 1, persistentPage = Some 2,
                 world = 3\<rparr>"

section \<open>Properties\<close>

subsection \<open>Strings\<close>

lemma of_char_word16_eq_iff: "(of_char a :: 16 word) = of_char b \<longleftrightarrow> a = b"
proof
  assume h: "(of_char a :: 16 word) = of_char b"
  have lt: "(of_char c :: nat) < 2 ^ 16" for c
  proof -
    have "(of_char c :: nat) mod 256 < 256" by (rule mod_less_divisor) simp
    then have "(of_char c :: nat) < 256" by simp
    then show ?thesis by (rule less_le_trans) simp
  qed
  have "(of_nat (of_char a) :: 16 word) = of_nat (of_char b)"
    using h by (simp only: of_nat_of_char)
  then have "(of_char a :: nat) mod 2 ^ 16 = of_char b mod 2 ^ 16"
    by (simp add: word_of_nat_eq_iff take_bit_eq_mod)
  then have "(of_char a :: nat) = of_char b"
    using lt [of a] lt [of b] by simp
  then show "a = b" by simp
qed simp

lemma js_eq_iff: "js a = js b \<longleftrightarrow> a = b"
  unfolding js_def by (simp add: inj_map_eq_map inj_def of_char_word16_eq_iff)

lemma startsWith_append: "startsWith (p @ r) p"
  by (simp add: startsWith_def)

lemma startsWith_iff: "startsWith s p \<longleftrightarrow> (\<exists>r. s = p @ r)"
  unfolding startsWith_def
  by (metis append_eq_conv_conj append_take_drop_id)

lemma str_includes_single: "str_includes s [c] \<longleftrightarrow> c \<in> set s"
  by (induction s) (auto simp: startsWith_def)

lemma replace_first_prefix: "startsWith s p \<Longrightarrow> replace_first s p r = r @ drop (length p) s"
  by (cases s) (auto simp: startsWith_def)

subsection \<open>The selector resolver\<close>

lemma lbr_not_word: "\<not> is_word_char 0x5B"
  by (simp add: is_word_char_def)

lemma match_role_plain:
  assumes "role \<noteq> []" "list_all is_word_char role"
  shows "match_role (js ''role:'' @ role) = Some (role, None)"
proof -
  have l: "length (js ''role:'') = 5" by (simp add: js_def)
  have t: "takeWhile is_word_char role = role" "dropWhile is_word_char role = []"
    using assms(2) by (simp_all add: list_all_iff)
  show ?thesis
    unfolding match_role_def using assms(1) by (simp add: startsWith_append l t)
qed

lemma match_role_named:
  assumes "role \<noteq> []" "list_all is_word_char role" "name \<noteq> []" "list_all (\<lambda>c. \<not> is_line_terminator c) name"
  shows "match_role (js ''role:'' @ role @ 0x5B # name @ [0x5D]) = Some (role, Some name)"
proof -
  have l: "length (js ''role:'') = 5" by (simp add: js_def)
  have t: "takeWhile is_word_char (role @ 0x5B # name @ [0x5D]) = role" 
     "dropWhile is_word_char (role @ 0x5B # name @ [0x5D]) = 0x5B # name @ [0x5D]"
    using assms(2) lbr_not_word by (simp_all add: list_all_iff takeWhile_append2 dropWhile_append2)
      have n: "Suc 0 \<le> length name" using assms(3) by (cases name) simp_all
  show ?thesis
    unfolding match_role_def using assms(1,3,4) n by (simp add: startsWith_append l t)
qed

lemma match_role_SomeD:
  assumes "match_role s = Some (role, nm)"
  shows "role \<noteq> [] \<and> list_all is_word_char role \<and>
     (case nm of None \<Rightarrow> s = js ''role:'' @ role
      | Some name \<Rightarrow> name \<noteq> [] \<and> list_all (\<lambda>c. \<not> is_line_terminator c) name \<and> s = js ''role:'' @ role @ 0x5B # name @ [0x5D])"
proof -
  from assms have sw: "startsWith s (js ''role:'')"
    by (auto simp: match_role_def split: if_splits)
  have l: "length (js ''role:'') = 5" by (simp add: js_def)
  define rest where "rest = drop 5 s"
  have s: "s = js ''role:'' @ rest"
    using sw l unfolding startsWith_def rest_def by (metis append_take_drop_id)
  define after where "after = dropWhile is_word_char rest"
  have rest: "rest = takeWhile is_word_char rest @ after"
    by (simp add: after_def)
  from assms have role: "role = takeWhile is_word_char rest" "role \<noteq> []"
    by (auto simp: match_role_def rest_def Let_def split: if_splits)
  have w: "list_all is_word_char role"
    unfolding role(1) list_all_iff by (auto dest: set_takeWhileD)
  show ?thesis
  proof (cases nm)
    case None
    with assms have "after = []"
      by (auto simp: match_role_def rest_def after_def Let_def split: if_splits)
    with rest role s None w show ?thesis by simp
  next
    case (Some name)
    with assms sw have a: "hd after = 0x5B" "last after = 0x5D" "3 \<le> length after"
      "list_all (\<lambda>c. \<not> is_line_terminator c) (butlast (tl after))" "name = butlast (tl after)" "after \<noteq> []"
      by (auto simp: match_role_def rest_def after_def Let_def split: if_splits)
    from a(3,6) have "tl after \<noteq> []" by (cases after) auto
    then have "after = 0x5B # butlast (tl after) @ [0x5D]"
      using a(1,2,6) by (metis append_butlast_last_id last_tl list.collapse)
    moreover have "length name = length after - 2" using a(5) by simp
    then have "name \<noteq> []" using a(3) by auto
    moreover note this
    ultimately show ?thesis using rest role s Some w a(4,5) by simp
  qed
qed

lemma structural_iff:
  "(match_css_start s \<or> str_includes s (js ''>'') \<or> str_includes s (js ''+'')) = spec_structural s"
  by (cases s) (auto simp: match_css_start_def spec_structural_def js_def str_includes_single)

lemma match_role_iff: "match_role s = Some (role, nm) \<longleftrightarrow> spec_role_form s role nm"
proof
  assume "match_role s = Some (role, nm)"
  from match_role_SomeD [OF this] show "spec_role_form s role nm"
    by (auto simp: spec_role_form_def js_def split: option.splits)
next
  assume h: "spec_role_form s role nm"
  show "match_role s = Some (role, nm)"
  proof (cases nm)
    case None
    with h show ?thesis by (simp add: spec_role_form_def match_role_plain)
  next
    case (Some n)
    have "js ''['' @ n @ js '']'' = 0x5B # n @ [0x5D]" by (simp add: js_def)
    with h Some show ?thesis by (simp add: spec_role_form_def match_role_named)
  qed
qed

lemma match_role_not_prefixed:
  "\<not> startsWith s (js ''role:'') \<Longrightarrow> match_role s = None"
  by (simp add: match_role_def)

lemma getLocator_prefix_rule:
  assumes "\<not> spec_structural s" "match_role s = None"
  shows "getLocator s =
     (if startsWith s (js ''testid:'') then ByTestId (drop 7 s)
      else if startsWith s (js ''placeholder:'') then ByPlaceholder (drop 12 s)
      else if startsWith s (js ''label:'') then ByLabel (drop 6 s)
      else ByText s)"
proof -
  have l: "length (js ''testid:'') = 7" "length (js ''placeholder:'') = 12" "length (js ''label:'') = 6"
    by (simp_all add: js_def)
  show ?thesis
    using assms unfolding getLocator_def structural_iff
    by (simp add: replace_first_prefix l)
qed

lemma other_prefix_not_role:
  "startsWith s (js ''testid:'') \<or> startsWith s (js ''placeholder:'') \<or> startsWith s (js ''label:'')
     \<Longrightarrow> \<not> startsWith s (js ''role:'')"
  by (cases s) (auto simp: startsWith_def js_def)

lemma prefixes_exclusive:
  "startsWith s (js ''placeholder:'') \<Longrightarrow> \<not> startsWith s (js ''testid:'')"
  "startsWith s (js ''label:'') \<Longrightarrow> \<not> startsWith s (js ''testid:'') \<and> \<not> startsWith s (js ''placeholder:'')"
  by (cases s; auto simp: startsWith_def js_def)+

text \<open>
  Claim C1. For every selector string \<open>s\<close>, \<open>getLocator\<close> returns the strategy of the first
  rule that matches, in the fixed order:
  (1) \<open>s\<close> begins with \<^verbatim>\<open>.\<close>, \<^verbatim>\<open>#\<close> or \<^verbatim>\<open>[\<close>, or contains \<^verbatim>\<open>>\<close> or \<^verbatim>\<open>+\<close>: the structural strategy
  on \<open>s\<close> itself;
  (2) otherwise, \<open>s\<close> is \<^verbatim>\<open>role:ROLE\<close> or \<^verbatim>\<open>role:ROLE[NAME]\<close>, where \<^verbatim>\<open>ROLE\<close> is a non-empty run of
  word characters and \<^verbatim>\<open>NAME\<close> is non-empty and free of line terminators: the role lookup,
  with the accessible name in the bracket form;
  (3) to (5) otherwise, \<open>s\<close> has the prefix \<^verbatim>\<open>testid:\<close>, \<^verbatim>\<open>placeholder:\<close> or \<^verbatim>\<open>label:\<close>: the
  test-identifier, placeholder or label lookup on the remainder;
  (6) otherwise the literal text lookup on \<open>s\<close>.
  In particular a string that begins with \<^verbatim>\<open>#\<close>, \<^verbatim>\<open>.\<close> or \<^verbatim>\<open>[\<close> is never resolved by role, and
  \<^verbatim>\<open>role:button[Submit]\<close> resolves to the role \<^verbatim>\<open>button\<close> with the accessible name \<^verbatim>\<open>Submit\<close>.
\<close>

theorem getLocator_precedence:
  "(spec_structural s \<longrightarrow> getLocator s = Css s)
   \<and> (\<not> spec_structural s \<and> spec_role_form s role name \<longrightarrow> getLocator s = ByRole role name)
   \<and> (\<not> spec_structural s \<and> startsWith s (js ''testid:'') \<longrightarrow> getLocator s = ByTestId (drop 7 s))
   \<and> (\<not> spec_structural s \<and> startsWith s (js ''placeholder:'')
        \<longrightarrow> getLocator s = ByPlaceholder (drop 12 s))
   \<and> (\<not> spec_structural s \<and> startsWith s (js ''label:'') \<longrightarrow> getLocator s = ByLabel (drop 6 s))
   \<and> (\<not> spec_structural s \<and> (\<forall>r n. \<not> spec_role_form s r n) \<and> \<not> startsWith s (js ''testid:'')
        \<and> \<not> startsWith s (js ''placeholder:'') \<and> \<not> startsWith s (js ''label:'')
        \<longrightarrow> getLocator s = ByText s)
   \<and> (s \<noteq> [] \<and> hd s \<in> set (js ''#.['') \<longrightarrow> (\<forall>r n. getLocator s \<noteq> ByRole r n))
   \<and> getLocator (js ''role:button[Submit]'') = ByRole (js ''button'') (Some (js ''Submit''))"
proof (intro conjI impI)
  show "getLocator s = Css s" if "spec_structural s"
    using that unfolding getLocator_def structural_iff by simp
  show "getLocator s = ByRole role name" if "\<not> spec_structural s \<and> spec_role_form s role name"
  proof -
    from that have m: "match_role s = Some (role, name)" by (simp add: match_role_iff)
    from that have "case name of None \<Rightarrow> True | Some n \<Rightarrow> n \<noteq> []"
      by (auto simp: spec_role_form_def split: option.splits)
    with that m show ?thesis
      unfolding getLocator_def structural_iff by (auto split: option.splits)
  qed
  show "getLocator s = ByTestId (drop 7 s)" if "\<not> spec_structural s \<and> startsWith s (js ''testid:'')"
    using that other_prefix_not_role [of s]
    by (simp add: getLocator_prefix_rule match_role_not_prefixed)
  show "getLocator s = ByPlaceholder (drop 12 s)"
    if "\<not> spec_structural s \<and> startsWith s (js ''placeholder:'')"
    using that other_prefix_not_role [of s] prefixes_exclusive(1) [of s]
    by (simp add: getLocator_prefix_rule match_role_not_prefixed)
  show "getLocator s = ByLabel (drop 6 s)" if "\<not> spec_structural s \<and> startsWith s (js ''label:'')"
    using that other_prefix_not_role [of s] prefixes_exclusive(2) [of s]
    by (simp add: getLocator_prefix_rule match_role_not_prefixed)
  show "getLocator s = ByText s"
    if "\<not> spec_structural s \<and> (\<forall>r n. \<not> spec_role_form s r n) \<and> \<not> startsWith s (js ''testid:'')
        \<and> \<not> startsWith s (js ''placeholder:'') \<and> \<not> startsWith s (js ''label:'')"
  proof -
    from that have "match_role s = None"
      by (cases "match_role s") (auto simp: match_role_iff)
    with that show ?thesis by (simp add: getLocator_prefix_rule)
  qed
  show "\<forall>r n. getLocator s \<noteq> ByRole r n" if "s \<noteq> [] \<and> hd s \<in> set (js ''#.['')"
  proof -
    from that have "spec_structural s" by (auto simp: spec_structural_def js_def)
    then have "getLocator s = Css s" unfolding getLocator_def structural_iff by simp
    then show ?thesis by simp
  qed
  show "getLocator (js ''role:button[Submit]'') = ByRole (js ''button'') (Some (js ''Submit''))"
  proof -
    have w: "list_all is_word_char (js ''button'')"
      by (simp add: js_def is_word_char_def)
    have n: "list_all (\<lambda>c. \<not> is_line_terminator c) (js ''Submit'')"
      by (simp add: js_def is_line_terminator_def)
    have e: "js ''role:button[Submit]'' = js ''role:'' @ js ''button'' @ 0x5B # js ''Submit'' @ [0x5D]"
      by (simp add: js_def)
    have m: "match_role (js ''role:button[Submit]'') = Some (js ''button'', Some (js ''Submit''))"
      unfolding e by (rule match_role_named) (use w n in \<open>simp_all add: js_def\<close>)
    have "\<not> spec_structural (js ''role:button[Submit]'')"
      by (simp add: spec_structural_def js_def)
    with m show ?thesis unfolding getLocator_def structural_iff by (simp add: js_def)
  qed
qed

text \<open>
  The rules of C1 at one selector each; the last selector has the prefix \<^verbatim>\<open>role:\<close> but a
  hyphen in the role, so no rule before the text lookup matches it.
\<close>

theorem getLocator_precedence_witness:
  "getLocator (js ''#login_field'') = Css (js ''#login_field'')
   \<and> getLocator (js ''ul > li'') = Css (js ''ul > li'')
   \<and> getLocator (js ''role:link'') = ByRole (js ''link'') None
   \<and> getLocator (js ''role:link[Home]'') = ByRole (js ''link'') (Some (js ''Home''))
   \<and> getLocator (js ''testid:login-btn'') = ByTestId (js ''login-btn'')
   \<and> getLocator (js ''placeholder:Enter email'') = ByPlaceholder (js ''Enter email'')
   \<and> getLocator (js ''label:Username'') = ByLabel (js ''Username'')
   \<and> getLocator (js ''Submit'') = ByText (js ''Submit'')
   \<and> getLocator (js ''role:my-button'') = ByText (js ''role:my-button'')"
proof -
  have 1: "spec_structural (js ''#login_field'')" "spec_structural (js ''ul > li'')"
    by (simp_all add: spec_structural_def js_def)
  have 2: "\<not> spec_structural (js ''role:link'')" "\<not> spec_structural (js ''role:link[Home]'')"
    "\<not> spec_structural (js ''testid:login-btn'')" "\<not> spec_structural (js ''placeholder:Enter email'')"
    "\<not> spec_structural (js ''label:Username'')" "\<not> spec_structural (js ''Submit'')"
    "\<not> spec_structural (js ''role:my-button'')"
    by (simp_all add: spec_structural_def js_def)
  have 3: "spec_role_form (js ''role:link'') (js ''link'') None"
    "spec_role_form (js ''role:link[Home]'') (js ''link'') (Some (js ''Home''))"
    by (simp_all add: spec_role_form_def js_def is_word_char_def is_line_terminator_def)
  have 4: "startsWith (js ''testid:login-btn'') (js ''testid:'')"
    "startsWith (js ''placeholder:Enter email'') (js ''placeholder:'')"
    "startsWith (js ''label:Username'') (js ''label:'')"
    by (simp_all add: startsWith_def js_def)
  have 5: "\<forall>r n. \<not> spec_role_form (js ''Submit'') r n"
    by (auto simp: spec_role_form_def js_def split: option.splits)
  have 6: "\<not> startsWith (js ''Submit'') (js ''testid:'')" "\<not> startsWith (js ''Submit'') (js ''placeholder:'')"
    "\<not> startsWith (js ''Submit'') (js ''label:'')"
    "\<not> startsWith (js ''role:my-button'') (js ''testid:'')" "\<not> startsWith (js ''role:my-button'') (js ''placeholder:'')"
    "\<not> startsWith (js ''role:my-button'') (js ''label:'')"
    by (simp_all add: startsWith_def js_def)
  have "match_role (js ''role:my-button'') = None"
    by (simp add: match_role_def js_def startsWith_def is_word_char_def)
  then have 7: "\<forall>r n. \<not> spec_role_form (js ''role:my-button'') r n"
    by (simp add: match_role_iff [symmetric])
  have d: "drop 7 (js ''testid:login-btn'') = js ''login-btn''"
    "drop 12 (js ''placeholder:Enter email'') = js ''Enter email''"
    "drop 6 (js ''label:Username'') = js ''Username''"
    by (simp_all add: js_def)
  show ?thesis
    using getLocator_precedence [of "js ''#login_field''"] getLocator_precedence [of "js ''ul > li''"]
      getLocator_precedence [of "js ''role:link''" "js ''link''" None]
      getLocator_precedence [of "js ''role:link[Home]''" "js ''link''" "Some (js ''Home'')"]
      getLocator_precedence [of "js ''testid:login-btn''"]
      getLocator_precedence [of "js ''placeholder:Enter email''"]
      getLocator_precedence [of "js ''label:Username''"]
      getLocator_precedence [of "js ''Submit''"]
      getLocator_precedence [of "js ''role:my-button''"]
      1 2 3 4 5 6 7 d
    by presburger
qed

subsection \<open>The secret interpolator\<close>

lemma first_missing_Nil [simp]: "first_missing env [] = None"
  by (simp add: first_missing_def)


















lemma match_placeholder_at:
  assumes "name \<noteq> []" "0x7D \<notin> set name"
  shows "match_placeholder (js ''${{'' @ name @ js ''}}'' @ post) = Some (name, post)"
proof -
  have l: "length (js ''${{'') = 3" by (simp add: js_def)
  have c: "js ''}}'' = [0x7D, 0x7D]" by (simp add: js_def)
  have a: "\<And>x. x \<in> set name \<Longrightarrow> x \<noteq> 0x7D" using assms(2) by auto
  have t: "takeWhile (\<lambda>c. c \<noteq> 0x7D) (name @ 0x7D # 0x7D # post) = name"
    using a by (simp add: takeWhile_append2)
  have d: "dropWhile (\<lambda>c. c \<noteq> 0x7D) (name @ 0x7D # 0x7D # post) = 0x7D # 0x7D # post"
    using a by (simp add: dropWhile_append2)
  have s: "startsWith (js ''${{'' @ name @ [0x7D, 0x7D] @ post) (js ''${{'')"
    by (simp add: startsWith_def)
  have e: "startsWith ([0x7D, 0x7D] @ post) [0x7D, 0x7D]"
    by (simp add: startsWith_def)
  show ?thesis
    unfolding match_placeholder_def c using assms(1) s e
    by (simp add: l t d Let_def)
qed

lemma scan_placeholder:
  assumes "name \<noteq> []" "0x7D \<notin> set name"
  shows "scan (js ''${{'' @ name @ js ''}}'' @ post) = Match name # scan post"
proof -
  obtain c cs where e: "js ''${{'' @ name @ js ''}}'' @ post = c # cs"
    by (cases "js ''${{'' @ name @ js ''}}'' @ post") (simp_all add: js_def)
  show ?thesis
    using match_placeholder_at [OF assms, of post] unfolding e by simp
qed

lemma scan_whole:
  assumes "name \<noteq> []" "0x7D \<notin> set name"
  shows "scan (js ''${{'' @ name @ js ''}}'') = [Match name]"
  using scan_placeholder [OF assms, of "[]"] by simp









lemma trim_id:
  assumes "name \<noteq> []" "\<not> is_white_space (hd name)" "\<not> is_white_space (last name)"
  shows "trim name = name"
proof -
  have 1: "dropWhile is_white_space name = name"
    using assms(1,2) by (cases name) simp_all
  have 2: "dropWhile is_white_space (rev name) = rev name"
    using assms(1,3) by (cases "rev name") (simp_all add: last_rev [symmetric] hd_rev)
  show ?thesis by (simp add: trim_def 1 2)
qed

text \<open>
  Claim C8, as amended. For a store entry whose name is not empty, has no \<^verbatim>\<open>}\<close> and neither
  begins nor ends with white space, interpolating the string that consists of the
  placeholder of that name yields exactly the stored value, whatever the value is.
\<close>

theorem placeholder_round_trip:
  "name \<noteq> [] \<and> 0x7D \<notin> set name \<and> \<not> is_white_space (hd name) \<and> \<not> is_white_space (last name)
     \<and> env name = Some v
   \<longrightarrow> interpolateSecrets env (js ''${{'' @ name @ js ''}}'') = Inr v"
proof
  assume h: "name \<noteq> [] \<and> 0x7D \<notin> set name \<and> \<not> is_white_space (hd name)
     \<and> \<not> is_white_space (last name) \<and> env name = Some v"
  then have "scan (js ''${{'' @ name @ js ''}}'') = [Match name]" "trim name = name"
    by (simp_all add: scan_whole trim_id)
  with h show "interpolateSecrets env (js ''${{'' @ name @ js ''}}'') = Inr v"
    by (simp add: interpolateSecrets_def lookup_secret_def)
qed

text \<open>
  C8 at a stored value full of the characters that are special in a replacement string
  and in the placeholder syntax.
\<close>

theorem placeholder_round_trip_witness:
  "js ''PRICE'' \<noteq> [] \<and> 0x7D \<notin> set (js ''PRICE'') \<and> \<not> is_white_space (hd (js ''PRICE''))
     \<and> \<not> is_white_space (last (js ''PRICE''))
     \<and> [js ''PRICE'' \<mapsto> js ''$& $1 $$ ${{X}}''] (js ''PRICE'') = Some (js ''$& $1 $$ ${{X}}'')
     \<and> interpolateSecrets [js ''PRICE'' \<mapsto> js ''$& $1 $$ ${{X}}''] (js ''${{'' @ js ''PRICE'' @ js ''}}'')
       = Inr (js ''$& $1 $$ ${{X}}'')"
proof -
  have h: "js ''PRICE'' \<noteq> [] \<and> 0x7D \<notin> set (js ''PRICE'') \<and> \<not> is_white_space (hd (js ''PRICE''))
     \<and> \<not> is_white_space (last (js ''PRICE''))"
    by (simp add: js_def is_white_space_def)
  with placeholder_round_trip [of "js ''PRICE''" "[js ''PRICE'' \<mapsto> js ''$& $1 $$ ${{X}}'']" "js ''$& $1 $$ ${{X}}''"]
  show ?thesis by simp
qed

text \<open>
  Claim C8 as stated, for every entry of the store, fails: for the entry named \<^verbatim>\<open>A}B\<close> the
  string \<^verbatim>\<open>${{A}B}}\<close> is no placeholder and comes back unchanged, and for the entry whose
  name is \<^verbatim>\<open>KEY\<close> after a space the lookup is made under the trimmed name and throws.
\<close>

theorem round_trip_counterexample:
  "[js ''A}B'' \<mapsto> js ''v''] (js ''A}B'') = Some (js ''v'')
   \<and> interpolateSecrets [js ''A}B'' \<mapsto> js ''v''] (js ''${{'' @ js ''A}B'' @ js ''}}'')
       = Inr (js ''${{A}B}}'')
   \<and> js ''${{A}B}}'' \<noteq> js ''v''
   \<and> [js '' KEY'' \<mapsto> js ''v''] (js '' KEY'') = Some (js ''v'')
   \<and> interpolateSecrets [js '' KEY'' \<mapsto> js ''v''] (js ''${{'' @ js '' KEY'' @ js ''}}'')
       = Inl (Error (not_defined_message (js ''KEY'')))"
proof -
  have 1: "scan (js ''${{'' @ js ''A}B'' @ js ''}}'') = map Lit (js ''${{A}B}}'')"
    by (simp add: js_def match_placeholder_def startsWith_def)
  have 2: "replace_matches f (map Lit s) = Inr s" for f s
    by (induction s) simp_all
  have 3: "scan (js ''${{'' @ js '' KEY'' @ js ''}}'') = [Match (js '' KEY'')]"
    by (simp add: js_def match_placeholder_def startsWith_def)
  have 4: "trim (js '' KEY'') = js ''KEY''"
    by (simp add: js_def trim_def is_white_space_def)
  have 5: "js ''KEY'' \<noteq> js '' KEY''" "js ''${{A}B}}'' \<noteq> js ''v''" by (simp_all add: js_def)
  show ?thesis
    using 5 by (simp add: interpolateSecrets_def 1 2 3 4 lookup_secret_def)
qed

subsection \<open>The runner of \<^verbatim>\<open>browser-session\<close>\<close>

lemma js_Nil_iff [simp]: "js a = [] \<longleftrightarrow> a = []"
  by (simp add: js_def)

lemma field_Cons:
  "field ((js k, v) # ps) k' = (if k = k' then v else field ps k')"
  by (simp add: field_def js_eq_iff)

lemma field_Nil: "field [] k = Undefined"
  by (simp add: field_def)

lemma andThen_ret [simp]: "andThen (ret x) f = f x"
  by (rule ext) (simp add: andThen_def ret_def)

lemma andThen_throw [simp]: "andThen (throw e) f = throw e"
  by (rule ext) (simp add: andThen_def throw_def)









lemma case_label_examples:
  "case_label (Str (js ''navigate'')) = Some Navigate"
  "case_label (Str (js ''fill'')) = Some Fill"
  "case_label (Str (js ''click'')) = Some Click"
  "case_label (Str (js ''get_url'')) = Some GetUrl"
  "case_label (Str (js ''bogus'')) = None"
  by (simp_all add: case_label_def js_eq_iff)




text \<open>
  Claim C6, the code at a command of an unknown type. In \<^verbatim>\<open>browser-session\<close> no label of the
  \<^verbatim>\<open>switch\<close> matches and there is no \<^verbatim>\<open>default\<close>: no engine call is made and the step is
  recorded as a success with the result \<^verbatim>\<open>undefined\<close>; the run goes on. The runner of
  \<^verbatim>\<open>execute-shortcut\<close> throws \<^verbatim>\<open>Unknown command type\<close> for the same command, which ends
  its run.
\<close>

theorem unknown_command_recorded_as_success:
  "run_commands eng page 0 [[(js ''type'', Str (js ''bogus''))]] [] w
     = ([\<lparr>step = 1, ctype = Str (js ''bogus''), success = True, result = Undefined,
          error = Undefined\<rparr>], w)
   \<and> shortcut_loop eng page 0 [[(js ''type'', Str (js ''bogus''))]] [] w
     = (Inl (Error (js ''Unknown command type: bogus'')), w)"
proof -
  have "shortcut_switch eng page [(js ''type'', Str (js ''bogus''))] w
     = (Inl (Error (js ''Unknown command type: bogus'')), w)"
    by (simp add: shortcut_switch_def field_Cons js_eq_iff throw_def Let_def) (simp add: js_def)
  then show ?thesis
    by (simp add: run_step_def switch_type_def field_Cons case_label_examples ret_def)
qed

text \<open>C6 on the recording engine: the unknown command leaves no call in the record.\<close>

theorem unknown_command_recorded_as_success_witness:
  "run_commands (recording page_without_go) 0 0 [[(js ''type'', Str (js ''bogus''))]] [] []
     = ([\<lparr>step = 1, ctype = Str (js ''bogus''), success = True, result = Undefined,
          error = Undefined\<rparr>], [])
   \<and> shortcut_loop (recording page_without_go) 0 0 [[(js ''type'', Str (js ''bogus''))]] [] []
     = (Inl (Error (js ''Unknown command type: bogus'')), [])"
  by (rule unknown_command_recorded_as_success)

lemma truthy_Undefined: "v = Undefined \<Longrightarrow> \<not> truthy v"
  by simp

lemma guarded_noop:
  assumes "k \<noteq> Navigate" "some_required_absent k cmd"
  shows "handler eng page cmd k = ret Undefined"
  using assms by (cases k) (auto simp: some_required_absent_def)

text \<open>
  Claim C9, as amended. For a command of \<^verbatim>\<open>browser-session\<close> of any type but \<^verbatim>\<open>navigate\<close>, if a
  parameter that its handler needs is absent, the handler makes no engine call (the
  world is unchanged, whatever the engine) and the step is recorded as a success whose
  result is \<^verbatim>\<open>undefined\<close>.
\<close>

theorem absent_parameter_is_noop:
  "case_label (field cmd ''type'') = Some k \<and> k \<noteq> Navigate \<and> some_required_absent k cmd
   \<longrightarrow> switch_type eng page cmd w = (Inr Undefined, w)
       \<and> run_step eng page n cmd w
           = (\<lparr>step = n, ctype = field cmd ''type'', success = True, result = Undefined,
                error = Undefined\<rparr>, w)"
  by (simp add: switch_type_def run_step_def guarded_noop ret_def)

text \<open>C9 at a \<^verbatim>\<open>click\<close> without selector and a \<^verbatim>\<open>type\<close> without value.\<close>

theorem absent_parameter_is_noop_witness:
  "case_label (field [(js ''type'', Str (js ''click''))] ''type'') = Some Click
   \<and> some_required_absent Click [(js ''type'', Str (js ''click''))]
   \<and> run_step (recording page_without_go) 0 1 [(js ''type'', Str (js ''click''))] []
       = (\<lparr>step = 1, ctype = Str (js ''click''), success = True, result = Undefined,
            error = Undefined\<rparr>, [])
   \<and> case_label (field [(js ''type'', Str (js ''type'')), (js ''selector'', Str (js ''#u''))] ''type'')
       = Some TypeKeys
   \<and> some_required_absent TypeKeys [(js ''type'', Str (js ''type'')), (js ''selector'', Str (js ''#u''))]
   \<and> run_step (recording page_without_go) 0 1
         [(js ''type'', Str (js ''type'')), (js ''selector'', Str (js ''#u''))] []
       = (\<lparr>step = 1, ctype = Str (js ''type''), success = True, result = Undefined,
            error = Undefined\<rparr>, [])"
proof -
  have c: "case_label (field [(js ''type'', Str (js ''click''))] ''type'') = Some Click"
    "case_label (field [(js ''type'', Str (js ''type'')), (js ''selector'', Str (js ''#u''))] ''type'')
       = Some TypeKeys"
    by (simp_all add: field_Cons case_label_def js_eq_iff)
  have a: "some_required_absent Click [(js ''type'', Str (js ''click''))]"
    "some_required_absent TypeKeys [(js ''type'', Str (js ''type'')), (js ''selector'', Str (js ''#u''))]"
    by (simp_all add: some_required_absent_def field_Cons field_Nil)
  have f: "field [(js ''type'', Str (js ''click''))] ''type'' = Str (js ''click'')"
    "field [(js ''type'', Str (js ''type'')), (js ''selector'', Str (js ''#u''))] ''type''
       = Str (js ''type'')"
    by (simp_all add: field_Cons)
  show ?thesis
    using absent_parameter_is_noop [of "[(js ''type'', Str (js ''click''))]" Click
        "recording page_without_go" 0 "[]" 1]
      absent_parameter_is_noop [of "[(js ''type'', Str (js ''type'')), (js ''selector'', Str (js ''#u''))]"
        TypeKeys "recording page_without_go" 0 "[]" 1]
      c a
    unfolding f by simp
qed

text \<open>
  Claim C9 as stated, for every command type, fails at \<^verbatim>\<open>navigate\<close>: without its URL the
  handler still calls \<^verbatim>\<open>page.goto\<close>, and as the engine rejects the call the step is
  recorded as a failure.
\<close>

theorem absent_parameter_counterexample:
  "case_label (field [(js ''type'', Str (js ''navigate''))] ''type'') = Some Navigate
   \<and> some_required_absent Navigate [(js ''type'', Str (js ''navigate''))]
   \<and> run_step (recording page_without_go) 0 1 [(js ''type'', Str (js ''navigate''))] []
       = (\<lparr>step = 1, ctype = Str (js ''navigate''), success = False, result = Undefined,
            error = Str (js ''page.goto: url: expected string, got undefined'')\<rparr>,
          [Call Page ''goto'' [Undefined]])"
  by (simp add: field_Cons field_Nil case_label_examples some_required_absent_def run_step_def
      switch_type_def andThen_def next_do_def recording_def)

subsection \<open>The runner of \<^verbatim>\<open>execute-shortcut\<close>\<close>

lemma shortcut_loop_append:
  "shortcut_loop eng page i (xs @ ys) entries w
     = (case shortcut_loop eng page i xs entries w of
          (Inl e, w') \<Rightarrow> (Inl e, w')
        | (Inr es, w') \<Rightarrow> shortcut_loop eng page (i + length xs) ys es w')"
  by (induction xs arbitrary: i entries w) (simp_all split: prod.splits sum.splits)

lemma shortcut_loop_length:
  "shortcut_loop eng page i cmds entries w = (Inr es, w')
     \<Longrightarrow> length es = length entries + length cmds"
proof (induction cmds arbitrary: i entries w)
  case Nil
  then show ?case by simp
next
  case (Cons cmd cmds)
  then show ?case by (fastforce split: prod.splits sum.splits)
qed

text \<open>
  Claim C4, as amended. In the runner of \<^verbatim>\<open>execute-shortcut\<close> (abort on failure), let the
  commands \<open>pre\<close> before step \<open>i\<close> all succeed and let command \<open>i\<close> throw. Then the loop stops
  there: the outcome is the exception of step \<open>i\<close> in the world that this step left, so
  no later command is run, whatever follows; the \<open>i\<close> entries recorded for the steps
  before are dropped; and the caller of \<^verbatim>\<open>run\<close> receives that exception, not a log.
\<close>

theorem abort_on_failure_throws:
  "shortcut_loop eng page 0 pre [] w = (Inr es, w1) \<and> shortcut_switch eng page cmd w1 = (Inl e, w2)
   \<longrightarrow> length es = length pre
       \<and> shortcut_loop eng page 0 (pre @ cmd # post) [] w = (Inl e, w2)
       \<and> executeShortcut_run eng page path (pre @ cmd # post) w = (Inl e, w2)"
proof
  assume h: "shortcut_loop eng page 0 pre [] w = (Inr es, w1)
     \<and> shortcut_switch eng page cmd w1 = (Inl e, w2)"
  then have l: "shortcut_loop eng page 0 (pre @ cmd # post) [] w = (Inl e, w2)"
    by (simp add: shortcut_loop_append)
  then have "executeShortcut_run eng page path (pre @ cmd # post) w = (Inl e, w2)"
    by (simp add: executeShortcut_run_def andThen_def)
  with h l shortcut_loop_length [of eng page 0 pre "[]" w es w1]
  show "length es = length pre
       \<and> shortcut_loop eng page 0 (pre @ cmd # post) [] w = (Inl e, w2)
       \<and> executeShortcut_run eng page path (pre @ cmd # post) w = (Inl e, w2)"
    by simp
qed

lemma shortcut_steps:
  "shortcut_switch (recording page_without_go) p cmd_navigate w
     = (Inr (Obj [(js ''url'', Str (js ''https://a.test/''))]),
        w @ [Call Page ''goto'' [Str (js ''https://a.test''), Obj [(js ''waitUntil'', Str (js ''load''))]],
             Call Page ''url'' []])"
  "shortcut_switch (recording page_without_go) p cmd_fill w
     = (Inr (Obj [(js ''filled'', Str (js ''#u''))]),
        w @ [Call (PageLocator (Str (js ''#u''))) ''fill'' [Str (js ''bob'')]])"
  "shortcut_switch (recording page_without_go) p cmd_click w
     = (Inl (Error (js ''Timeout 30000ms exceeded.'')),
        w @ [Call (PageLocator (Str (js ''#go''))) ''click'' []])"
  by (simp_all add: shortcut_switch_def cmd_navigate_def cmd_fill_def cmd_click_def
      field_Cons field_Nil or_else_def andThen_def next_do_def ret_def recording_def js_eq_iff)

lemma shortcut_two_steps:
  "shortcut_loop (recording page_without_go) 0 0 [cmd_navigate, cmd_fill] [] []
     = (Inr [[(js ''step'', Num 1), (js ''command'', Str (js ''navigate'')),
              (js ''url'', Str (js ''https://a.test/''))],
             [(js ''step'', Num 2), (js ''command'', Str (js ''fill'')),
              (js ''filled'', Str (js ''#u''))]],
        [Call Page ''goto'' [Str (js ''https://a.test''), Obj [(js ''waitUntil'', Str (js ''load''))]],
         Call Page ''url'' [],
         Call (PageLocator (Str (js ''#u''))) ''fill'' [Str (js ''bob'')]])"
  by (simp add: shortcut_steps) (simp add: cmd_navigate_def cmd_fill_def field_Cons)

text \<open>
  C4 at the scenario of the specification followed by a fourth command: the run ends
  with the exception of the third step, and the record of calls ends with the click.
\<close>

theorem abort_on_failure_throws_witness:
  "executeShortcut_run (recording page_without_go) 0 (js ''login.yaml'')
       ([cmd_navigate, cmd_fill] @ cmd_click # [cmd_get_url]) []
     = (Inl (Error (js ''Timeout 30000ms exceeded.'')),
        [Call Page ''goto'' [Str (js ''https://a.test''), Obj [(js ''waitUntil'', Str (js ''load''))]],
         Call Page ''url'' [],
         Call (PageLocator (Str (js ''#u''))) ''fill'' [Str (js ''bob'')],
         Call (PageLocator (Str (js ''#go''))) ''click'' []])"
  using abort_on_failure_throws [of "recording page_without_go" 0 "[cmd_navigate, cmd_fill]" "[]"
      _ _ cmd_click _ _ "[cmd_get_url]" "js ''login.yaml''"]
    shortcut_two_steps shortcut_steps(3)
  by simp

text \<open>
  Claim C4 as stated fails at the scenario of the specification: with \<^verbatim>\<open>#go\<close> absent, the
  third step is the first to fail, and the run yields no log of three entries but the
  exception itself.
\<close>

theorem abort_on_failure_counterexample:
  "executeShortcut_run (recording page_without_go) 0 (js ''login.yaml'')
       [cmd_navigate, cmd_fill, cmd_click] []
     = (Inl (Error (js ''Timeout 30000ms exceeded.'')),
        [Call Page ''goto'' [Str (js ''https://a.test''), Obj [(js ''waitUntil'', Str (js ''load''))]],
         Call Page ''url'' [],
         Call (PageLocator (Str (js ''#u''))) ''fill'' [Str (js ''bob'')],
         Call (PageLocator (Str (js ''#go''))) ''click'' []])"
  by (simp add: executeShortcut_run_def andThen_def shortcut_steps)

subsection \<open>The session\<close>

lemma acquire_reuse:
  "refs st = (Some b, Some c, Some p) \<Longrightarrow> acquire pw n ch h opts st = (Inr (b, c, p), st)"
  by (simp add: acquire_def refs_def)

lemma acquire_stores:
  assumes "acquire pw n ch h opts st = (Inr s, st1)"
  shows "refs st1 = (Some (fst s), Some (fst (snd s)), Some (snd (snd s)))"
  using assms unfolding acquire_def refs_def
  by (auto split: option.splits prod.splits sum.splits)

lemma runAction_reuse:
  assumes "refs st = (Some b, Some c, Some p)"
    and "launcher pw (fst (browser_choice (case a_browser action of Some x \<Rightarrow> x | None \<Rightarrow> cli_browser cli)))"
  shows "runAction pw cli env action args st
     = (case run_with_session env action args (b, c, p) st of (r, st2) \<Rightarrow> (Inr r, st2))"
proof -
  obtain bn chn where c: "browser_choice (case a_browser action of Some x \<Rightarrow> x | None \<Rightarrow> cli_browser cli)
      = (bn, chn)"
    by (cases "browser_choice (case a_browser action of Some x \<Rightarrow> x | None \<Rightarrow> cli_browser cli)")
  with assms(2) have "launcher pw bn" by simp
  then show ?thesis
    unfolding runAction_def c by (simp add: acquire_reuse [OF assms(1)])
qed

text \<open>
  Claim C5. The process holds the session in its three variables, so at most one at a
  time. When all three are set, acquiring returns exactly that triple and leaves the
  whole state as it is, the world included: no engine is launched. A successful
  acquisition stores the triple it returns, so a second acquisition right after it, with
  whatever browser settings, returns the identical triple without a launch. An action
  run by \<^verbatim>\<open>runAction\<close> while a session exists is run on that session.
\<close>

theorem single_session_reuse:
  "(refs st = (Some b, Some c, Some p) \<longrightarrow> acquire pw n ch h opts st = (Inr (b, c, p), st))
   \<and> (acquire pw n ch h opts st = (Inr s, st1) \<longrightarrow>
         refs st1 = (Some (fst s), Some (fst (snd s)), Some (snd (snd s)))
         \<and> acquire pw2 n2 ch2 h2 opts2 st1 = (Inr s, st1))
   \<and> (refs st = (Some b, Some c, Some p)
        \<and> launcher pw (fst (browser_choice
               (case a_browser action of Some x \<Rightarrow> x | None \<Rightarrow> cli_browser cli))) \<longrightarrow>
         runAction pw cli env action args st
           = (case run_with_session env action args (b, c, p) st of (r, st2) \<Rightarrow> (Inr r, st2)))"
proof (intro conjI impI)
  assume a: "acquire pw n ch h opts st = (Inr s, st1)"
  from acquire_stores [OF a]
  show r: "refs st1 = (Some (fst s), Some (fst (snd s)), Some (snd (snd s)))" .
  from acquire_reuse [OF r] show "acquire pw2 n2 ch2 h2 opts2 st1 = (Inr s, st1)" by simp
qed (simp_all add: acquire_reuse runAction_reuse)

lemma acquire_first:
  "acquire counting_playwright (js ''chromium'') None False Undefined unallocated
     = (Inr (0, 1, 2), allocated)"
  by (simp add: acquire_def counting_playwright_def unallocated_def allocated_def)

text \<open>
  C5 in the example process: the first acquisition launches and issues the handles 0, 1
  and 2; the second, asked for another browser, returns the same triple and issues none.
\<close>

theorem single_session_reuse_witness:
  "acquire counting_playwright (js ''chromium'') None False Undefined unallocated
     = (Inr (0, 1, 2), allocated)
   \<and> refs allocated = (Some 0, Some 1, Some 2)
   \<and> acquire counting_playwright (js ''firefox'') None True Undefined allocated
     = (Inr (0, 1, 2), allocated)
   \<and> world allocated = 3"
  using single_session_reuse [where st = unallocated and pw = counting_playwright
      and n = "js ''chromium''" and ch = None and h = False and opts = Undefined
      and s = "(0, 1, 2)" and ?st1.0 = allocated and ?pw2.0 = counting_playwright
      and ?n2.0 = "js ''firefox''" and ?ch2.0 = None and ?h2.0 = True and ?opts2.0 = Undefined]
    acquire_first
  by (simp add: allocated_def)

lemma run_with_session_frame:
  assumes "a_name action \<noteq> js ''close-browser''"
  shows "refs (snd (run_with_session env action args session st)) = refs st"
  using assms unfolding run_with_session_def refs_def
  by (auto split: prod.splits sum.splits error.splits)

lemma runAction_frame:
  assumes "a_name action \<noteq> js ''close-browser''" "refs st = (Some b, Some c, Some p)"
  shows "refs (snd (runAction pw cli env action args st)) = refs st"
proof -
  obtain bn chn where c: "browser_choice (case a_browser action of Some x \<Rightarrow> x | None \<Rightarrow> cli_browser cli)
      = (bn, chn)"
    by (cases "browser_choice (case a_browser action of Some x \<Rightarrow> x | None \<Rightarrow> cli_browser cli)")
  show ?thesis
  proof (cases "launcher pw bn")
    case True
    then show ?thesis
      unfolding runAction_def c
      using run_with_session_frame [OF assms(1), of env args "(b, c, p)" st]
      by (cases "run_with_session env action args (b, c, p) st")
        (simp add: acquire_reuse [OF assms(2)])
  next
    case False
    then show ?thesis unfolding runAction_def c by simp
  qed
qed

lemma run_with_session_throw:
  assumes "interpolateSecretsInObject env args = Inr ia"
    and "a_run action \<lparr>ctx_browser = b, ctx_context = c, ctx_page = p, ctx_input = ia\<rparr> (world st)
           = (Inl (Error m), w')"
  shows "run_with_session env action args (b, c, p) st
     = (ToolError (failed_message (a_name action) m), st\<lparr>world := w'\<rparr>)"
  using assms by (simp add: run_with_session_def)

lemma run_with_session_close:
  assumes "a_name action = js ''close-browser''"
    and "fst (run_with_session env action args session st) = Normalized n r"
  shows "refs (snd (run_with_session env action args session st)) = (None, None, None)"
  using assms unfolding run_with_session_def refs_def
  by (auto split: prod.splits sum.splits error.splits)

text \<open>
  Claim C10, as amended. Once the session for an action is acquired, running an action
  whose name is not \<^verbatim>\<open>close-browser\<close> leaves the three session variables as they are; so
  \<^verbatim>\<open>runAction\<close> on a state that holds a session leaves them unchanged. This includes the
  action whose \<^verbatim>\<open>run\<close> throws: the outcome is the tool error with the message, and only
  the world has changed. The variables are reset to the unallocated state by an action
  named \<^verbatim>\<open>close-browser\<close> whose \<^verbatim>\<open>run\<close> returns.
\<close>

theorem session_retained:
  "(a_name action \<noteq> js ''close-browser'' \<longrightarrow>
      refs (snd (run_with_session env action args session st)) = refs st
      \<and> (refs st = (Some b, Some c, Some p) \<longrightarrow>
           refs (snd (runAction pw cli env action args st)) = refs st))
   \<and> (interpolateSecretsInObject env args = Inr ia
        \<and> a_run action \<lparr>ctx_browser = b, ctx_context = c, ctx_page = p, ctx_input = ia\<rparr> (world st)
            = (Inl (Error m), w') \<longrightarrow>
        run_with_session env action args (b, c, p) st
          = (ToolError (failed_message (a_name action) m), st\<lparr>world := w'\<rparr>))
   \<and> (a_name action = js ''close-browser''
        \<and> fst (run_with_session env action args session st) = Normalized n r \<longrightarrow>
        refs (snd (run_with_session env action args session st)) = (None, None, None))"
  by (simp add: run_with_session_frame runAction_frame run_with_session_throw
      run_with_session_close)

lemma names_differ: "js ''browser-snapshot'' \<noteq> js ''close-browser''"
  by (simp add: js_eq_iff)

lemma default_browser:
  "browser_choice (js ''chromium'') = (js ''chromium'', None)"
  by (simp add: browser_choice_def toLowerCase_def Let_def js_def)

lemma snapshot_on_closed_page:
  "runAction counting_playwright default_cli Map.empty (browserSnapshot closed_engine) (Obj []) allocated
     = (Inr (ToolError (failed_message (js ''browser-snapshot'')
                (js ''Target page, context or browser has been closed''))), allocated)"
  by (simp add: runAction_def browserSnapshot_def default_cli_def default_browser
      counting_playwright_def acquire_def allocated_def run_with_session_def closed_engine_def
      andThen_def)

lemma close_on_allocated:
  "runAction counting_playwright default_cli Map.empty (closeBrowser quiet_engine) (Obj []) allocated
     = (Inr (Normalized (js ''close-browser'')
           (Obj [(js ''content'',
                  Arr [Obj [(js ''type'', Str (js ''text'')),
                            (js ''text'', Str (js ''Browser session closed.''))]])])),
        unallocated\<lparr>world := 3\<rparr>)"
  by (simp add: runAction_def closeBrowser_def default_cli_def default_browser
      counting_playwright_def acquire_def allocated_def unallocated_def run_with_session_def
      quiet_engine_def andThen_def next_do_def)

text \<open>
  C10 in the example process, on the state that holds the session 0, 1, 2: the snapshot
  action fails on a closed page and the session is retained; \<^verbatim>\<open>close-browser\<close> resets it.
\<close>

theorem session_retained_witness:
  "a_name (browserSnapshot closed_engine) \<noteq> js ''close-browser''
   \<and> refs allocated = (Some 0, Some 1, Some 2)
   \<and> runAction counting_playwright default_cli Map.empty (browserSnapshot closed_engine) (Obj []) allocated
       = (Inr (ToolError (failed_message (js ''browser-snapshot'')
                (js ''Target page, context or browser has been closed''))), allocated)
   \<and> refs (snd (runAction counting_playwright default_cli Map.empty (browserSnapshot closed_engine)
                  (Obj []) allocated)) = (Some 0, Some 1, Some 2)
   \<and> a_name (closeBrowser quiet_engine) = js ''close-browser''
   \<and> refs (snd (run_with_session Map.empty (closeBrowser quiet_engine) (Obj []) (0, 1, 2) allocated))
       = (None, None, None)"
proof -
  have 1: "a_name (browserSnapshot closed_engine) \<noteq> js ''close-browser''"
    by (simp add: browserSnapshot_def names_differ)
  have 2: "refs allocated = (Some 0, Some 1, Some 2)"
    by (simp add: refs_def allocated_def)
  have 3: "a_name (closeBrowser quiet_engine) = js ''close-browser''"
    by (simp add: closeBrowser_def)
  have 4: "fst (run_with_session Map.empty (closeBrowser quiet_engine) (Obj []) (0, 1, 2) allocated)
      = Normalized (js ''close-browser'')
           (Obj [(js ''content'',
                  Arr [Obj [(js ''type'', Str (js ''text'')),
                            (js ''text'', Str (js ''Browser session closed.''))]])])"
    by (simp add: run_with_session_def closeBrowser_def quiet_engine_def andThen_def next_do_def)
  from session_retained [where action = "browserSnapshot closed_engine" and st = allocated
      and b = 0 and c = 1 and p = 2 and pw = counting_playwright and cli = default_cli
      and env = Map.empty and args = "Obj []"] 1 2
  have 5: "refs (snd (runAction counting_playwright default_cli Map.empty
                  (browserSnapshot closed_engine) (Obj []) allocated)) = (Some 0, Some 1, Some 2)"
    by simp
  from session_retained [where action = "closeBrowser quiet_engine" and st = allocated
      and env = Map.empty and args = "Obj []" and session = "(0, 1, 2)"] 3 4
  have 6: "refs (snd (run_with_session Map.empty (closeBrowser quiet_engine) (Obj []) (0, 1, 2)
                  allocated)) = (None, None, None)"
    by simp
  show ?thesis using 1 2 3 5 6 snapshot_on_closed_page by simp
qed

text \<open>
  Claim C10 as stated, for every state, fails on the unallocated state: the action
  \<^verbatim>\<open>browser-snapshot\<close>, whose name is not \<^verbatim>\<open>close-browser\<close>, launches the session and leaves the
  three variables set.
\<close>

theorem session_retained_counterexample:
  "a_name (browserSnapshot quiet_engine) \<noteq> js ''close-browser''
   \<and> refs unallocated = (None, None, None)
   \<and> refs (snd (runAction counting_playwright default_cli Map.empty (browserSnapshot quiet_engine)
                  (Obj []) unallocated)) = (Some 0, Some 1, Some 2)"
  by (simp add: runAction_def browserSnapshot_def default_cli_def default_browser names_differ
      counting_playwright_def acquire_def unallocated_def run_with_session_def quiet_engine_def
      andThen_def ret_def refs_def)

end
